theory Spec2Isabelle
  imports Main "HOL-Library.Log_Nat"
begin

section \<open>Python values\<close>

subsection \<open>Strings\<close>

text \<open>
  A Python \<open>str\<close> is a sequence of Unicode code points; \<open>len\<close>, slicing and \<open>strip\<close>
  count code points, so a string is a list of code points. \<open>lit\<close> embeds an ASCII literal
  of the source; the few non-ASCII literals of the source are written by code point.
\<close>

type_synonym pystr = "nat list"

definition lit :: "string \<Rightarrow> pystr" where
  "lit s = map of_char s"

text \<open>\<open>sep.join(xs)\<close>.\<close>

fun join :: "pystr \<Rightarrow> pystr list \<Rightarrow> pystr" where
  "join sep [] = []"
| "join sep [x] = x"
| "join sep (x # y # ys) = x @ sep @ join sep (y # ys)"

text \<open>
  \<open>str.isspace\<close> for one code point (the white-space table of CPython), and
  \<open>str.strip()\<close> with no argument, which removes such code points at both ends.
\<close>

definition py_isspace :: "nat \<Rightarrow> bool" where
  "py_isspace c = ((9 \<le> c \<and> c \<le> 13) \<or> (28 \<le> c \<and> c \<le> 32) \<or> c = 133 \<or> c = 160
     \<or> c = 5760 \<or> (8192 \<le> c \<and> c \<le> 8202) \<or> c = 8232 \<or> c = 8233 \<or> c = 8239
     \<or> c = 8287 \<or> c = 12288)"

definition strip :: "pystr \<Rightarrow> pystr" where
  "strip s = rev (dropWhile py_isspace (rev (dropWhile py_isspace s)))"

text \<open>\<open>str(n)\<close> for an \<open>int\<close>: decimal digits, with a minus sign when negative.\<close>

fun digits :: "nat \<Rightarrow> pystr" where
  "digits n = (if n < 10 then [48 + n] else digits (n div 10) @ [48 + n mod 10])"

declare digits.simps [simp del]

definition str_int :: "int \<Rightarrow> pystr" where
  "str_int i = (if i < 0 then lit ''-'' @ digits (nat (- i)) else digits (nat i))"

text \<open>Zero-padded two-digit field, as \<open>%02d\<close> and strftime's \<open>%d\<close>, \<open>%I\<close>, \<open>%M\<close> print it.\<close>

definition pad2 :: "nat \<Rightarrow> pystr" where
  "pad2 n = (if n < 10 then lit ''0'' @ digits n else digits n)"

subsection \<open>Floats\<close>

text \<open>
  A Python \<open>float\<close> is an IEEE-754 binary64 value: a finite one is the rational number it
  denotes, and the infinities and NaN are values of their own. The sign of zero is not
  kept. Every arithmetic result is the exact result rounded to the nearest binary64
  value, ties to even (\<open>float64\<close>); a result whose magnitude after rounding has binary
  exponent 1024 or more (that is, reaches \<open>2^1024\<close>) overflows to an infinity.
\<close>

datatype pyfloat = Fin rat | PInf | NInf | NaN

definition round_half_even :: "rat \<Rightarrow> int" where
  "round_half_even q =
     (let f = \<lfloor>q\<rfloor>; r = q - of_int f
      in if r < 1 / 2 then f else if 1 / 2 < r then f + 1 else if even f then f else f + 1)"

definition pow2 :: "int \<Rightarrow> rat" where
  "pow2 e = (if 0 \<le> e then 2 ^ nat e else 1 / 2 ^ nat (- e))"

text \<open>\<open>ilog2 q\<close> is the binary exponent of a positive rational: \<open>2^e \<le> q < 2^(e+1)\<close>.\<close>

definition ilog2 :: "rat \<Rightarrow> int" where
  "ilog2 q =
     (let k = bitlen (fst (quotient_of q)) - bitlen (snd (quotient_of q))
      in if pow2 k \<le> q then k else k - 1)"

definition float64 :: "rat \<Rightarrow> pyfloat" where
  "float64 q =
     (if q = 0 then Fin 0
      else let a = \<bar>q\<bar>;
               u = pow2 (max (ilog2 a) (- 1022) - 52);
               m = of_int (round_half_even (a / u)) * u
           in if 1024 \<le> ilog2 m then (if q < 0 then NInf else PInf)
              else Fin (if q < 0 then - m else m))"

text \<open>Comparison with the integer zero, as in \<open>v <= 0\<close> and \<open>gt=0\<close>; NaN compares false.\<close>

fun float_le0 :: "pyfloat \<Rightarrow> bool" where
  "float_le0 (Fin r) = (r \<le> 0)"
| "float_le0 PInf = False"
| "float_le0 NInf = True"
| "float_le0 NaN = False"

fun float_gt0 :: "pyfloat \<Rightarrow> bool" where
  "float_gt0 (Fin r) = (0 < r)"
| "float_gt0 PInf = True"
| "float_gt0 NInf = False"
| "float_gt0 NaN = False"

text \<open>
  \<open>round(v, 2)\<close>: CPython rounds the exact value of \<open>v\<close> to two decimals, ties to even,
  and converts that decimal back to the nearest float. Infinities and NaN round to
  themselves.
\<close>

definition round_dec2 :: "rat \<Rightarrow> rat" where
  "round_dec2 r = of_int (round_half_even (r * 100)) / 100"

fun py_round2 :: "pyfloat \<Rightarrow> pyfloat" where
  "py_round2 (Fin r) = float64 (round_dec2 r)"
| "py_round2 x = x"

text \<open>A decimal literal of the source, such as \<open>0.3\<close>, is the float nearest to it.\<close>

definition flit :: "rat \<Rightarrow> pyfloat" where
  "flit d = float64 d"

text \<open>Float multiplication and addition (IEEE-754, without the sign of zero).\<close>

fun fmul :: "pyfloat \<Rightarrow> pyfloat \<Rightarrow> pyfloat" where
  "fmul (Fin a) (Fin b) = float64 (a * b)"
| "fmul NaN _ = NaN"
| "fmul _ NaN = NaN"
| "fmul (Fin a) PInf = (if a = 0 then NaN else if 0 < a then PInf else NInf)"
| "fmul (Fin a) NInf = (if a = 0 then NaN else if 0 < a then NInf else PInf)"
| "fmul PInf (Fin b) = (if b = 0 then NaN else if 0 < b then PInf else NInf)"
| "fmul NInf (Fin b) = (if b = 0 then NaN else if 0 < b then NInf else PInf)"
| "fmul PInf PInf = PInf"
| "fmul PInf NInf = NInf"
| "fmul NInf PInf = NInf"
| "fmul NInf NInf = PInf"

fun fadd :: "pyfloat \<Rightarrow> pyfloat \<Rightarrow> pyfloat" where
  "fadd (Fin a) (Fin b) = float64 (a + b)"
| "fadd NaN _ = NaN"
| "fadd _ NaN = NaN"
| "fadd PInf NInf = NaN"
| "fadd NInf PInf = NaN"
| "fadd PInf _ = PInf"
| "fadd NInf _ = NInf"
| "fadd (Fin a) PInf = PInf"
| "fadd (Fin a) NInf = NInf"

subsection \<open>Exceptions and dynamically typed values\<close>

text \<open>
  Statement arguments are heterogeneous Python lists. Exceptions are values. Where the
  source builds a message with \<open>f"<prefix>{e}"\<close> from a caught exception \<open>e\<close>, the
  model keeps the prefix and the exception itself in place of the text of \<open>str(e)\<close>.
\<close>

datatype pyval = PNone | PBool bool | PInt int | PFloat pyfloat | PStr pystr

datatype violation = MinLength | MaxLength | GreaterEqual | GreaterThan | ValueError string

datatype exn =
    Error pystr
  | OverflowError
  | ValidationError "(string \<times> violation) list"
  | Exception pystr exn
  | HTTPException nat pystr "exn option"

text \<open>
  Conversion of an \<open>int\<close> operand to \<open>float\<close>, as in \<open>quantity * price\<close>: correctly
  rounded, and \<open>OverflowError\<close> when the integer is too large for a float.
\<close>

definition float_of_int :: "int \<Rightarrow> exn + pyfloat" where
  "float_of_int i = (case float64 (of_int i) of Fin r \<Rightarrow> Inr (Fin r) | _ \<Rightarrow> Inl OverflowError)"

definition int_times_float :: "int \<Rightarrow> pyfloat \<Rightarrow> exn + pyfloat" where
  "int_times_float i x = (case float_of_int i of Inl e \<Rightarrow> Inl e | Inr f \<Rightarrow> Inr (fmul f x))"

subsection \<open>Timestamps\<close>

record datetime =
  year :: nat
  month :: nat
  day :: nat
  hour :: nat
  minute :: nat
  second :: nat
  microsecond :: nat

section \<open>Domain model (models.py)\<close>

text \<open>
  \<open>ProductBase\<close> (and \<open>ProductCreate\<close>, which adds nothing), \<open>ProductUpdate\<close> with every
  field optional, and \<open>Product\<close> with the storage fields. A record holds the typed field
  values; a body that lacks a required field or has a value of the wrong JSON type is
  refused by the framework before any validator below runs.
\<close>

record ProductBase =
  name :: pystr
  category :: pystr
  quantity :: int
  price :: pyfloat
  description :: "pystr option"

record Product = ProductBase +
  id' :: int
  created_at :: datetime
  updated_at :: datetime

record ProductUpdate =
  upd_name :: "pystr option"
  upd_category :: "pystr option"
  upd_quantity :: "int option"
  upd_price :: "pyfloat option"
  upd_description :: "pystr option"

subsection \<open>The validators of \<open>ProductBase\<close>\<close>

definition ProductBase_validate_name :: "pystr \<Rightarrow> violation + pystr" where
  "ProductBase_validate_name v =
     (if strip v = [] then Inl (ValueError ''Product name cannot be empty'')
      else Inr (strip v))"

definition ProductBase_validate_category :: "pystr \<Rightarrow> violation + pystr" where
  "ProductBase_validate_category v =
     (if strip v = [] then Inl (ValueError ''Category cannot be empty'')
      else Inr (strip v))"

definition ProductBase_validate_price :: "pyfloat \<Rightarrow> violation + pyfloat" where
  "ProductBase_validate_price v =
     (if float_le0 v then Inl (ValueError ''Price must be greater than 0'')
      else Inr (py_round2 v))"

definition ProductBase_validate_quantity :: "int \<Rightarrow> violation + int" where
  "ProductBase_validate_quantity v =
     (if v < 0 then Inl (ValueError ''Quantity cannot be negative'') else Inr v)"

text \<open>
  A field is checked against its \<open>Field(...)\<close> constraints first; the validator of the
  field runs on a value that passed them, and its return value becomes the field.
\<close>

definition ProductBase_name :: "pystr \<Rightarrow> violation + pystr" where
  "ProductBase_name v =
     (if length v < 1 then Inl MinLength
      else if 255 < length v then Inl MaxLength
      else ProductBase_validate_name v)"

definition ProductBase_category :: "pystr \<Rightarrow> violation + pystr" where
  "ProductBase_category v =
     (if length v < 1 then Inl MinLength
      else if 100 < length v then Inl MaxLength
      else ProductBase_validate_category v)"

definition ProductBase_quantity :: "int \<Rightarrow> violation + int" where
  "ProductBase_quantity v =
     (if \<not> 0 \<le> v then Inl GreaterEqual else ProductBase_validate_quantity v)"

definition ProductBase_price :: "pyfloat \<Rightarrow> violation + pyfloat" where
  "ProductBase_price v =
     (if \<not> float_gt0 v then Inl GreaterThan else ProductBase_validate_price v)"

definition ProductBase_description :: "pystr option \<Rightarrow> violation + pystr option" where
  "ProductBase_description v =
     (case v of None \<Rightarrow> Inr None
      | Some d \<Rightarrow> if 1000 < length d then Inl MaxLength else Inr (Some d))"

text \<open>The errors of all fields are collected, in field order.\<close>

definition field_errors :: "string \<Rightarrow> violation + 'a \<Rightarrow> (string \<times> violation) list" where
  "field_errors f r = (case r of Inl v \<Rightarrow> [(f, v)] | Inr _ \<Rightarrow> [])"

definition new_ProductCreate :: "ProductBase \<Rightarrow> exn + ProductBase" where
  "new_ProductCreate raw =
     (let n = ProductBase_name (name raw);
          c = ProductBase_category (category raw);
          q = ProductBase_quantity (quantity raw);
          p = ProductBase_price (price raw);
          d = ProductBase_description (description raw);
          errors = field_errors ''name'' n @ field_errors ''category'' c
                 @ field_errors ''quantity'' q @ field_errors ''price'' p
                 @ field_errors ''description'' d
      in if errors = []
         then Inr \<lparr>name = projr n, category = projr c, quantity = projr q,
                    price = projr p, description = projr d\<rparr>
         else Inl (ValidationError errors))"

definition new_Product :: "Product \<Rightarrow> exn + Product" where
  "new_Product raw =
     (let n = ProductBase_name (name raw);
          c = ProductBase_category (category raw);
          q = ProductBase_quantity (quantity raw);
          p = ProductBase_price (price raw);
          d = ProductBase_description (description raw);
          errors = field_errors ''name'' n @ field_errors ''category'' c
                 @ field_errors ''quantity'' q @ field_errors ''price'' p
                 @ field_errors ''description'' d
      in if errors = []
         then Inr \<lparr>name = projr n, category = projr c, quantity = projr q,
                    price = projr p, description = projr d,
                    id' = id' raw, created_at = created_at raw, updated_at = updated_at raw\<rparr>
         else Inl (ValidationError errors))"

subsection \<open>The validators of \<open>ProductUpdate\<close>\<close>

definition ProductUpdate_validate_name :: "pystr option \<Rightarrow> violation + pystr option" where
  "ProductUpdate_validate_name v =
     (if v \<noteq> None \<and> strip (the v) = [] then Inl (ValueError ''Product name cannot be empty'')
      else Inr (if v \<noteq> None \<and> the v \<noteq> [] then Some (strip (the v)) else v))"

definition ProductUpdate_validate_category :: "pystr option \<Rightarrow> violation + pystr option" where
  "ProductUpdate_validate_category v =
     (if v \<noteq> None \<and> strip (the v) = [] then Inl (ValueError ''Category cannot be empty'')
      else Inr (if v \<noteq> None \<and> the v \<noteq> [] then Some (strip (the v)) else v))"

definition ProductUpdate_validate_price :: "pyfloat option \<Rightarrow> violation + pyfloat option" where
  "ProductUpdate_validate_price v =
     (if v \<noteq> None \<and> float_le0 (the v) then Inl (ValueError ''Price must be greater than 0'')
      else Inr (if v \<noteq> None then Some (py_round2 (the v)) else v))"

definition ProductUpdate_validate_quantity :: "int option \<Rightarrow> violation + int option" where
  "ProductUpdate_validate_quantity v =
     (if v \<noteq> None \<and> the v < 0 then Inl (ValueError ''Quantity cannot be negative'')
      else Inr v)"

definition ProductUpdate_name :: "pystr option \<Rightarrow> violation + pystr option" where
  "ProductUpdate_name v =
     (case v of None \<Rightarrow> ProductUpdate_validate_name v
      | Some s \<Rightarrow> if length s < 1 then Inl MinLength
                  else if 255 < length s then Inl MaxLength
                  else ProductUpdate_validate_name v)"

definition ProductUpdate_category :: "pystr option \<Rightarrow> violation + pystr option" where
  "ProductUpdate_category v =
     (case v of None \<Rightarrow> ProductUpdate_validate_category v
      | Some s \<Rightarrow> if length s < 1 then Inl MinLength
                  else if 100 < length s then Inl MaxLength
                  else ProductUpdate_validate_category v)"

definition ProductUpdate_quantity :: "int option \<Rightarrow> violation + int option" where
  "ProductUpdate_quantity v =
     (case v of None \<Rightarrow> ProductUpdate_validate_quantity v
      | Some q \<Rightarrow> if \<not> 0 \<le> q then Inl GreaterEqual else ProductUpdate_validate_quantity v)"

definition ProductUpdate_price :: "pyfloat option \<Rightarrow> violation + pyfloat option" where
  "ProductUpdate_price v =
     (case v of None \<Rightarrow> ProductUpdate_validate_price v
      | Some p \<Rightarrow> if \<not> float_gt0 p then Inl GreaterThan else ProductUpdate_validate_price v)"

definition new_ProductUpdate :: "ProductUpdate \<Rightarrow> exn + ProductUpdate" where
  "new_ProductUpdate raw =
     (let n = ProductUpdate_name (upd_name raw);
          c = ProductUpdate_category (upd_category raw);
          q = ProductUpdate_quantity (upd_quantity raw);
          p = ProductUpdate_price (upd_price raw);
          d = ProductBase_description (upd_description raw);
          errors = field_errors ''name'' n @ field_errors ''category'' c
                 @ field_errors ''quantity'' q @ field_errors ''price'' p
                 @ field_errors ''description'' d
      in if errors = []
         then Inr \<lparr>upd_name = projr n, upd_category = projr c, upd_quantity = projr q,
                    upd_price = projr p, upd_description = projr d\<rparr>
         else Inl (ValidationError errors))"

section \<open>Data access layer (database.py)\<close>

text \<open>
  The relational engine is outside the repository. \<open>DatabaseManager\<close> is modelled over
  any engine: \<open>connect_error\<close> says whether the pool fails to hand out a connection,
  \<open>execute\<close> is the effect of one statement with its arguments on the data a session
  sees (the driver's \<open>Error\<close> with its message, or the cursor's results and the new
  data), and \<open>commit_error\<close> says whether the server refuses a commit. The driver reports
  every failure of a statement as an \<open>Error\<close>, and the effect of a statement stays within
  its session until the session commits (at once when autocommit is on).
\<close>

record 'row cursor =
  fetchall :: "'row list"
  rowcount :: int
  lastrowid :: int

record ('db, 'row) engine =
  connect_error :: "'db \<Rightarrow> pystr option"
  execute :: "pystr \<Rightarrow> pyval list \<Rightarrow> 'db \<Rightarrow> pystr + ('row cursor \<times> 'db)"
  commit_error :: "'db \<Rightarrow> pystr option"

text \<open>
  A connection: the data the server has committed, the data this session sees (with its
  uncommitted work), and the autocommit flag. The pool hands out a connection with
  autocommit on, as \<open>self.config\<close> sets it.
\<close>

record 'db connection =
  server :: 'db
  session :: 'db
  autocommit :: bool

definition get_connection :: "'db \<Rightarrow> 'db connection" where
  "get_connection db = \<lparr>server = db, session = db, autocommit = True\<rparr>"

definition cursor_execute ::
  "('db, 'row) engine \<Rightarrow> 'db connection \<Rightarrow> pystr \<Rightarrow> pyval list
     \<Rightarrow> pystr + ('row cursor \<times> 'db connection)" where
  "cursor_execute eng c query params =
     (case execute eng query params (session c) of
        Inl msg \<Rightarrow> Inl msg
      | Inr (cur, s) \<Rightarrow>
          Inr (cur, c\<lparr>session := s, server := (if autocommit c then s else server c)\<rparr>))"

definition connection_commit ::
  "('db, 'row) engine \<Rightarrow> 'db connection \<Rightarrow> pystr + 'db connection" where
  "connection_commit eng c =
     (case commit_error eng (session c) of
        Some msg \<Rightarrow> Inl msg
      | None \<Rightarrow> Inr (c\<lparr>server := session c\<rparr>))"

definition connection_rollback :: "'db connection \<Rightarrow> 'db connection" where
  "connection_rollback c = c\<lparr>session := server c\<rparr>"

text \<open>
  \<open>if params: cursor.execute(query, params) else: cursor.execute(query)\<close>, with
  \<open>params: Optional[List[Any]]\<close>; \<open>None\<close> and the empty list are both false.
\<close>

definition execute_with ::
  "('db, 'row) engine \<Rightarrow> 'db connection \<Rightarrow> pystr \<Rightarrow> pyval list option
     \<Rightarrow> pystr + ('row cursor \<times> 'db connection)" where
  "execute_with eng c query params =
     (if params \<noteq> None \<and> the params \<noteq> []
      then cursor_execute eng c query (the params)
      else cursor_execute eng c query [])"

text \<open>
  Each method returns its result, or the exception it raises, together with the data the
  server holds once the connection has been given back.
\<close>

definition execute_query ::
  "('db, 'row) engine \<Rightarrow> 'db \<Rightarrow> pystr \<Rightarrow> pyval list option \<Rightarrow> (exn + 'row list) \<times> 'db" where
  "execute_query eng db query params =
     (case connect_error eng db of
        Some msg \<Rightarrow> (Inl (Exception (lit ''Query execution failed: '') (Error msg)), db)
      | None \<Rightarrow>
          (case execute_with eng (get_connection db) query params of
             Inl msg \<Rightarrow> (Inl (Exception (lit ''Query execution failed: '') (Error msg)), db)
           | Inr (cur, c) \<Rightarrow> (Inr (fetchall cur), server c)))"

definition execute_insert ::
  "('db, 'row) engine \<Rightarrow> 'db \<Rightarrow> pystr \<Rightarrow> pyval list option \<Rightarrow> (exn + int) \<times> 'db" where
  "execute_insert eng db query params =
     (case connect_error eng db of
        Some msg \<Rightarrow> (Inl (Exception (lit ''Insert execution failed: '') (Error msg)), db)
      | None \<Rightarrow>
          (case execute_with eng (get_connection db) query params of
             Inl msg \<Rightarrow> (Inl (Exception (lit ''Insert execution failed: '') (Error msg)), db)
           | Inr (cur, c) \<Rightarrow>
               (case connection_commit eng c of
                  Inl msg \<Rightarrow>
                    (Inl (Exception (lit ''Insert execution failed: '') (Error msg)), server c)
                | Inr c' \<Rightarrow> (Inr (lastrowid cur), server c'))))"

definition execute_update ::
  "('db, 'row) engine \<Rightarrow> 'db \<Rightarrow> pystr \<Rightarrow> pyval list option \<Rightarrow> (exn + int) \<times> 'db" where
  "execute_update eng db query params =
     (case connect_error eng db of
        Some msg \<Rightarrow> (Inl (Exception (lit ''Update execution failed: '') (Error msg)), db)
      | None \<Rightarrow>
          (case execute_with eng (get_connection db) query params of
             Inl msg \<Rightarrow> (Inl (Exception (lit ''Update execution failed: '') (Error msg)), db)
           | Inr (cur, c) \<Rightarrow>
               (case connection_commit eng c of
                  Inl msg \<Rightarrow>
                    (Inl (Exception (lit ''Update execution failed: '') (Error msg)), server c)
                | Inr c' \<Rightarrow> (Inr (rowcount cur), server c'))))"

subsection \<open>\<open>execute_transaction\<close>\<close>

text \<open>
  The loop over \<open>queries\<close>: it stops at the first statement that raises, and returns the
  message together with the connection as that point left it.
\<close>

fun run_queries ::
  "('db, 'row) engine \<Rightarrow> 'db connection \<Rightarrow> (pystr \<times> pyval list option) list
     \<Rightarrow> (pystr \<times> 'db connection) + 'db connection" where
  "run_queries eng c [] = Inr c"
| "run_queries eng c ((query, params) # queries) =
     (case execute_with eng c query params of
        Inl msg \<Rightarrow> Inl (msg, c)
      | Inr (cur, c') \<Rightarrow> run_queries eng c' queries)"

text \<open>
  The result is \<open>True\<close> or the exception raised, with the connection as it is when the
  method leaves its \<open>with\<close> block (before the pool takes it back). When the pool hands
  out no connection, nothing has been executed, and the connection returned shows the
  server's data untouched.
\<close>

definition execute_transaction ::
  "('db, 'row) engine \<Rightarrow> 'db \<Rightarrow> (pystr \<times> pyval list option) list
     \<Rightarrow> (exn + bool) \<times> 'db connection" where
  "execute_transaction eng db queries =
     (case connect_error eng db of
        Some msg \<Rightarrow>
          (Inl (Exception (lit ''Transaction execution failed: '') (Error msg)),
           get_connection db)
      | None \<Rightarrow>
          (let connection = (get_connection db)\<lparr>autocommit := False\<rparr>
           in case run_queries eng connection queries of
                Inl (msg, c) \<Rightarrow>
                  (Inl (Exception (lit ''Transaction execution failed: '') (Error msg)),
                   connection_rollback c)
              | Inr c \<Rightarrow>
                  (case connection_commit eng c of
                     Inl msg \<Rightarrow>
                       (Inl (Exception (lit ''Transaction execution failed: '') (Error msg)),
                        connection_rollback c)
                   | Inr c' \<Rightarrow> (Inr True, c'))))"

subsection \<open>The \<open>products\<close> table\<close>

text \<open>
  The schema file is not among the sources; the table is modelled after the data model
  the endpoints rely on. A row is the tuple the cursor returns, in column order:
  id, name, category, quantity, price (a decimal), description, created_at, updated_at.
  The store keeps the rows, the next generated id, the server's clock and, when the
  server cannot be reached, the driver's message.
\<close>

type_synonym row = "int \<times> pystr \<times> pystr \<times> int \<times> rat \<times> pystr option \<times> datetime \<times> datetime"

record store =
  table :: "row list"
  next_id :: int
  clock :: datetime
  fault :: "pystr option"

datatype column = CName | CCategory | CQuantity | CPrice | CDescription

fun set_clause :: "column \<Rightarrow> pystr" where
  "set_clause CName = lit ''name = %s''"
| "set_clause CCategory = lit ''category = %s''"
| "set_clause CQuantity = lit ''quantity = %s''"
| "set_clause CPrice = lit ''price = %s''"
| "set_clause CDescription = lit ''description = %s''"

text \<open>An argument the column accepts: a finite price, a string or \<open>None\<close> as description.\<close>

fun accepts :: "column \<Rightarrow> pyval \<Rightarrow> bool" where
  "accepts CName (PStr s) = True"
| "accepts CCategory (PStr s) = True"
| "accepts CQuantity (PInt k) = True"
| "accepts CPrice (PFloat (Fin x)) = True"
| "accepts CDescription (PStr s) = True"
| "accepts CDescription PNone = True"
| "accepts _ _ = False"

text \<open>
  Modelled from the spec: the schema of the \<open>products\<close> table (\<open>database/schema.sql\<close>) is
  not among the sources. The price column is a decimal with two fractional digits, and
  \<open>updated_at\<close> is set at insert and on every mutation.
\<close>

fun assign :: "column \<Rightarrow> pyval \<Rightarrow> row \<Rightarrow> row" where
  "assign CName (PStr s) (i, n, c, q, p, d, ca, ua) = (i, s, c, q, p, d, ca, ua)"
| "assign CCategory (PStr s) (i, n, c, q, p, d, ca, ua) = (i, n, s, q, p, d, ca, ua)"
| "assign CQuantity (PInt k) (i, n, c, q, p, d, ca, ua) = (i, n, c, k, p, d, ca, ua)"
| "assign CPrice (PFloat (Fin x)) (i, n, c, q, p, d, ca, ua) = (i, n, c, q, round_dec2 x, d, ca, ua)"
| "assign CDescription (PStr s) (i, n, c, q, p, d, ca, ua) = (i, n, c, q, p, Some s, ca, ua)"
| "assign CDescription PNone (i, n, c, q, p, d, ca, ua) = (i, n, c, q, p, None, ca, ua)"
| "assign _ _ r = r"

fun assign_all :: "column list \<Rightarrow> pyval list \<Rightarrow> row \<Rightarrow> row" where
  "assign_all (col # cols) (v # vs) r = assign_all cols vs (assign col v r)"
| "assign_all _ _ r = r"

definition touch :: "datetime \<Rightarrow> row \<Rightarrow> row" where
  "touch t r = (case r of (i, n, c, q, p, d, ca, ua) \<Rightarrow> (i, n, c, q, p, d, ca, t))"

definition update_sql :: "column list \<Rightarrow> pystr" where
  "update_sql cols =
     lit ''UPDATE products SET '' @ join (lit '', '') (map set_clause cols) @ lit '' WHERE id = %s''"

definition no_rows :: "row cursor" where
  "no_rows = \<lparr>fetchall = [], rowcount = 0, lastrowid = 0\<rparr>"

text \<open>
  The statements the product endpoints issue, as the server executes them: the look-up
  and the deletion by id, the insertion of the five supplied columns, and the update of
  any non-empty selection of them (in column order) by id. Anything else is refused.
\<close>

definition products_execute :: "pystr \<Rightarrow> pyval list \<Rightarrow> store \<Rightarrow> pystr + (row cursor \<times> store)" where
  "products_execute query params st =
     (if query = lit ''SELECT * FROM products WHERE id = %s'' then
        (case params of
           [PInt i] \<Rightarrow>
             (let found = filter (\<lambda>r. fst r = i) (table st)
              in Inr (no_rows\<lparr>fetchall := found, rowcount := int (length found)\<rparr>, st))
         | _ \<Rightarrow> Inl (lit ''wrong arguments''))
      else if query = lit ''DELETE FROM products WHERE id = %s'' then
        (case params of
           [PInt i] \<Rightarrow>
             Inr (no_rows\<lparr>rowcount := int (length (filter (\<lambda>r. fst r = i) (table st)))\<rparr>,
                  st\<lparr>table := filter (\<lambda>r. fst r \<noteq> i) (table st)\<rparr>)
         | _ \<Rightarrow> Inl (lit ''wrong arguments''))
      else if query = lit ''\<newline>        INSERT INTO products (name, category, quantity, price, description)\<newline>        VALUES (%s, %s, %s, %s, %s)\<newline>        '' then
        (case params of
           [PStr n, PStr c, PInt q, PFloat (Fin p), d] \<Rightarrow>
             (if accepts CDescription d
              then Inr (no_rows\<lparr>rowcount := 1, lastrowid := next_id st\<rparr>,
                        st\<lparr>table := table st @
                              [assign CDescription d
                                 (next_id st, n, c, q, round_dec2 p, None, clock st, clock st)],
                           next_id := next_id st + 1\<rparr>)
              else Inl (lit ''wrong arguments''))
         | _ \<Rightarrow> Inl (lit ''wrong arguments''))
      else
        (case find (\<lambda>cols. cols \<noteq> [] \<and> query = update_sql cols)
                (subseqs [CName, CCategory, CQuantity, CPrice, CDescription]) of
           Some cols \<Rightarrow>
             (if params \<noteq> [] \<and> length (butlast params) = length cols
                 \<and> list_all2 accepts cols (butlast params)
              then (case last params of
                      PInt i \<Rightarrow>
                        Inr (no_rows\<lparr>rowcount := int (length (filter (\<lambda>r. fst r = i) (table st)))\<rparr>,
                             st\<lparr>table := map (\<lambda>r. if fst r = i
                                                    then touch (clock st) (assign_all cols (butlast params) r)
                                                    else r) (table st)\<rparr>)
                    | _ \<Rightarrow> Inl (lit ''wrong arguments''))
              else Inl (lit ''wrong arguments''))
         | None \<Rightarrow> Inl (lit ''unsupported statement'')))"

definition products_engine :: "(store, row) engine" where
  "products_engine = \<lparr>connect_error = fault, execute = products_execute, commit_error = (\<lambda>st. None)\<rparr>"

section \<open>Query construction (utils.py, main.py)\<close>

text \<open>Truth value of an optional string and of an optional flag, as \<open>if x:\<close> tests it.\<close>

definition truthy_str :: "pystr option \<Rightarrow> bool" where
  "truthy_str v = (v \<noteq> None \<and> the v \<noteq> [])"

definition truthy_bool :: "bool option \<Rightarrow> bool" where
  "truthy_bool v = (v = Some True)"

text \<open>
  The filter dictionary of \<open>build_search_query\<close> has the keys and value types that
  \<open>ProductFilter\<close> declares; \<open>filters.get(k)\<close> is \<open>None\<close> for a key that is missing or
  holds \<open>None\<close>. The field \<open>filter_category\<close> is the key \<open>category\<close>.
\<close>

record ProductFilter =
  filter_category :: "pystr option"
  min_price :: "pyfloat option"
  max_price :: "pyfloat option"
  min_quantity :: "int option"
  max_quantity :: "int option"
  search :: "pystr option"
  low_stock :: "bool option"

definition build_search_query :: "pystr \<Rightarrow> ProductFilter \<Rightarrow> pystr \<times> pyval list" where
  "build_search_query base_query filters =
     (let conditions = [];
          params = [];
          (conditions, params) =
            (if truthy_str (filter_category filters)
             then (conditions @ [lit ''category = %s''],
                   params @ [PStr (the (filter_category filters))])
             else (conditions, params));
          (conditions, params) =
            (if min_price filters \<noteq> None
             then (conditions @ [lit ''price >= %s''], params @ [PFloat (the (min_price filters))])
             else (conditions, params));
          (conditions, params) =
            (if max_price filters \<noteq> None
             then (conditions @ [lit ''price <= %s''], params @ [PFloat (the (max_price filters))])
             else (conditions, params));
          (conditions, params) =
            (if min_quantity filters \<noteq> None
             then (conditions @ [lit ''quantity >= %s''], params @ [PInt (the (min_quantity filters))])
             else (conditions, params));
          (conditions, params) =
            (if max_quantity filters \<noteq> None
             then (conditions @ [lit ''quantity <= %s''], params @ [PInt (the (max_quantity filters))])
             else (conditions, params));
          (conditions, params) =
            (if truthy_str (search filters)
             then (let search_term = lit ''%'' @ the (search filters) @ lit ''%''
                   in (conditions @ [lit ''(name LIKE %s OR description LIKE %s)''],
                       params @ [PStr search_term, PStr search_term]))
             else (conditions, params));
          conditions =
            (if truthy_bool (low_stock filters) then conditions @ [lit ''quantity < 10'']
             else conditions);
          query =
            (if conditions \<noteq> []
             then base_query @ lit '' WHERE '' @ join (lit '' AND '') conditions
             else base_query)
      in (query, params))"

text \<open>
  The statement and the arguments that \<open>get_products\<close> hands to \<open>execute_query\<close>; the
  framework has checked \<open>skip \<ge> 0\<close> and \<open>1 \<le> limit \<le> 1000\<close> before.
\<close>

definition get_products_statement ::
  "int \<Rightarrow> int \<Rightarrow> pystr option \<Rightarrow> pystr option \<Rightarrow> bool option \<Rightarrow> pystr \<times> pyval list" where
  "get_products_statement skip limit category_arg search_arg low_stock_arg =
     (let query = lit ''SELECT * FROM products WHERE 1=1'';
          params = [];
          (query, params) =
            (if truthy_str category_arg
             then (query @ lit '' AND category = %s'', params @ [PStr (the category_arg)])
             else (query, params));
          (query, params) =
            (if truthy_str search_arg
             then (let search_param = lit ''%'' @ the search_arg @ lit ''%''
                   in (query @ lit '' AND (name LIKE %s OR description LIKE %s)'',
                       params @ [PStr search_param, PStr search_param]))
             else (query, params));
          query = (if truthy_bool low_stock_arg then query @ lit '' AND quantity < 10'' else query);
          query = query @ lit '' ORDER BY created_at DESC LIMIT %s OFFSET %s'';
          params = params @ [PInt limit, PInt skip]
      in (query, params))"

section \<open>API surface (main.py)\<close>

text \<open>
  Every endpoint ends with \<open>except HTTPException: raise\<close> and
  \<open>except Exception as e: raise HTTPException(500, f"<prefix>{str(e)}")\<close>.
\<close>

definition http_reraise :: "pystr \<Rightarrow> exn \<Rightarrow> exn" where
  "http_reraise prefix e =
     (case e of HTTPException status detail cause \<Rightarrow> e
      | _ \<Rightarrow> HTTPException 500 prefix (Some e))"

text \<open>\<open>Product(id=row[0], name=row[1], ..., price=float(row[4]), ...)\<close>.\<close>

definition row_product :: "row \<Rightarrow> exn + Product" where
  "row_product r =
     (case r of (r0, r1, r2, r3, r4, r5, r6, r7) \<Rightarrow>
        new_Product \<lparr>name = r1, category = r2, quantity = r3, price = float64 r4,
                      description = r5, id' = r0, created_at = r6, updated_at = r7\<rparr>)"

definition not_found :: "int \<Rightarrow> exn" where
  "not_found product_id =
     HTTPException 404 (lit ''Product with ID '' @ str_int product_id @ lit '' not found'') None"

definition get_product :: "store \<Rightarrow> int \<Rightarrow> (exn + Product) \<times> store" where
  "get_product db product_id =
     (case execute_query products_engine db (lit ''SELECT * FROM products WHERE id = %s'')
             (Some [PInt product_id]) of
        (Inl e, db1) \<Rightarrow> (Inl (http_reraise (lit ''Failed to fetch product: '') e), db1)
      | (Inr results, db1) \<Rightarrow>
          (if results = [] then (Inl (not_found product_id), db1)
           else (case row_product (hd results) of
                   Inl e \<Rightarrow> (Inl (http_reraise (lit ''Failed to fetch product: '') e), db1)
                 | Inr product \<Rightarrow> (Inr product, db1))))"

definition optional_str :: "pystr option \<Rightarrow> pyval" where
  "optional_str v = (case v of None \<Rightarrow> PNone | Some s \<Rightarrow> PStr s)"

definition create_product :: "store \<Rightarrow> ProductBase \<Rightarrow> (exn + Product) \<times> store" where
  "create_product db product =
     (if float_le0 (price product)
      then (Inl (HTTPException 400 (lit ''Price must be greater than 0'') None), db)
      else if quantity product < 0
      then (Inl (HTTPException 400 (lit ''Quantity cannot be negative'') None), db)
      else
        (case execute_insert products_engine db
                (lit ''\<newline>        INSERT INTO products (name, category, quantity, price, description)\<newline>        VALUES (%s, %s, %s, %s, %s)\<newline>        '')
                (Some [PStr (name product), PStr (category product), PInt (quantity product),
                       PFloat (price product), optional_str (description product)]) of
           (Inl e, db1) \<Rightarrow> (Inl (http_reraise (lit ''Failed to create product: '') e), db1)
         | (Inr product_id, db1) \<Rightarrow>
             (case get_product db1 product_id of
                (Inl e, db2) \<Rightarrow> (Inl (http_reraise (lit ''Failed to create product: '') e), db2)
              | (Inr created_product, db2) \<Rightarrow> (Inr created_product, db2))))"

text \<open>
  The dynamic part of \<open>update_product\<close>: the \<open>SET\<close> clauses and their arguments in the
  order name, category, quantity, price, description, or the first 400 raised on the way.
\<close>

definition update_clauses :: "ProductUpdate \<Rightarrow> exn + (pystr list \<times> pyval list)" where
  "update_clauses product_update =
     (let update_fields = [];
          params = [];
          (update_fields, params) =
            (if upd_name product_update \<noteq> None
             then (update_fields @ [lit ''name = %s''], params @ [PStr (the (upd_name product_update))])
             else (update_fields, params));
          (update_fields, params) =
            (if upd_category product_update \<noteq> None
             then (update_fields @ [lit ''category = %s''],
                   params @ [PStr (the (upd_category product_update))])
             else (update_fields, params))
      in if upd_quantity product_update \<noteq> None \<and> the (upd_quantity product_update) < 0
         then Inl (HTTPException 400 (lit ''Quantity cannot be negative'') None)
         else
          (let (update_fields, params) =
                 (if upd_quantity product_update \<noteq> None
                  then (update_fields @ [lit ''quantity = %s''],
                        params @ [PInt (the (upd_quantity product_update))])
                  else (update_fields, params))
           in if upd_price product_update \<noteq> None \<and> float_le0 (the (upd_price product_update))
              then Inl (HTTPException 400 (lit ''Price must be greater than 0'') None)
              else
               (let (update_fields, params) =
                      (if upd_price product_update \<noteq> None
                       then (update_fields @ [lit ''price = %s''],
                             params @ [PFloat (the (upd_price product_update))])
                       else (update_fields, params));
                    (update_fields, params) =
                      (if upd_description product_update \<noteq> None
                       then (update_fields @ [lit ''description = %s''],
                             params @ [PStr (the (upd_description product_update))])
                       else (update_fields, params))
                in if update_fields = []
                   then Inl (HTTPException 400 (lit ''No fields to update'') None)
                   else Inr (update_fields, params))))"

definition update_product :: "store \<Rightarrow> int \<Rightarrow> ProductUpdate \<Rightarrow> (exn + Product) \<times> store" where
  "update_product db product_id product_update =
     (case get_product db product_id of
        (Inl e, db1) \<Rightarrow> (Inl (http_reraise (lit ''Failed to update product: '') e), db1)
      | (Inr existing_product, db1) \<Rightarrow>
          (case update_clauses product_update of
             Inl e \<Rightarrow> (Inl (http_reraise (lit ''Failed to update product: '') e), db1)
           | Inr (update_fields, params) \<Rightarrow>
               (case execute_update products_engine db1
                       (lit ''UPDATE products SET '' @ join (lit '', '') update_fields
                          @ lit '' WHERE id = %s'')
                       (Some (params @ [PInt product_id])) of
                  (Inl e, db2) \<Rightarrow> (Inl (http_reraise (lit ''Failed to update product: '') e), db2)
                | (Inr rows_affected, db2) \<Rightarrow>
                    (case get_product db2 product_id of
                       (Inl e, db3) \<Rightarrow>
                         (Inl (http_reraise (lit ''Failed to update product: '') e), db3)
                     | (Inr updated_product, db3) \<Rightarrow> (Inr updated_product, db3)))))"

text \<open>The success value is the text of the \<open>message\<close> entry of the returned dictionary.\<close>

definition delete_product :: "store \<Rightarrow> int \<Rightarrow> (exn + pystr) \<times> store" where
  "delete_product db product_id =
     (case get_product db product_id of
        (Inl e, db1) \<Rightarrow> (Inl (http_reraise (lit ''Failed to delete product: '') e), db1)
      | (Inr existing_product, db1) \<Rightarrow>
          (case execute_update products_engine db1 (lit ''DELETE FROM products WHERE id = %s'')
                  (Some [PInt product_id]) of
             (Inl e, db2) \<Rightarrow> (Inl (http_reraise (lit ''Failed to delete product: '') e), db2)
           | (Inr rows_affected, db2) \<Rightarrow>
               (if rows_affected = 0 then (Inl (not_found product_id), db2)
                else (Inr (lit ''Product '' @ [39] @ name existing_product @ [39]
                             @ lit '' deleted successfully''), db2))))"

text \<open>
  A request reaches an endpoint through the framework, which builds the body model first
  and answers 422 with the validation errors when that fails.
\<close>

definition post_products :: "store \<Rightarrow> ProductBase \<Rightarrow> (exn + Product) \<times> store" where
  "post_products db body =
     (case new_ProductCreate body of
        Inl e \<Rightarrow> (Inl (HTTPException 422 [] (Some e)), db)
      | Inr product \<Rightarrow> create_product db product)"

definition put_products :: "store \<Rightarrow> int \<Rightarrow> ProductUpdate \<Rightarrow> (exn + Product) \<times> store" where
  "put_products db product_id body =
     (case new_ProductUpdate body of
        Inl e \<Rightarrow> (Inl (HTTPException 422 [] (Some e)), db)
      | Inr product_update \<Rightarrow> update_product db product_id product_update)"

section \<open>Report generator (pdf_generator.py)\<close>

subsection \<open>Formatting\<close>

text \<open>
  Generic loop over a list with a step that may raise: the first exception ends it.
  \<open>sum(...)\<close> over floats starts from the integer zero and adds from left to right, each
  addition rounded (\<open>foldl fadd (Fin 0)\<close> below; CPython from 3.12 on compensates the
  rounding error of the running total, which the model does not follow).
\<close>

fun traverse :: "('a \<Rightarrow> exn + 'b) \<Rightarrow> 'a list \<Rightarrow> exn + 'b list" where
  "traverse f [] = Inr []"
| "traverse f (x # xs) =
     (case f x of
        Inl e \<Rightarrow> Inl e
      | Inr y \<Rightarrow> (case traverse f xs of Inl e \<Rightarrow> Inl e | Inr ys \<Rightarrow> Inr (y # ys)))"

text \<open>Thousands separators of the \<open>,\<close> format option, on a string of digits.\<close>

function group3 :: "pystr \<Rightarrow> pystr" where
  "group3 ds =
     (if length ds \<le> 3 then ds
      else group3 (take (length ds - 3) ds) @ lit '','' @ drop (length ds - 3) ds)"
  by pat_completeness auto
termination
  by (relation "measure length") auto

declare group3.simps [simp del]

text \<open>
  The format specifications \<open>.2f\<close> and \<open>,.2f\<close>: the exact value rounded to two decimals,
  ties to even; a negative value keeps its sign.
\<close>

definition format_2f :: "bool \<Rightarrow> pyfloat \<Rightarrow> pystr" where
  "format_2f grouped x =
     (case x of
        Fin r \<Rightarrow>
          (let n = nat (round_half_even (\<bar>r\<bar> * 100));
               whole = digits (n div 100)
           in (if r < 0 then lit ''-'' else []) @ (if grouped then group3 whole else whole)
              @ lit ''.'' @ pad2 (n mod 100))
      | PInf \<Rightarrow> lit ''inf''
      | NInf \<Rightarrow> lit ''-inf''
      | NaN \<Rightarrow> lit ''nan'')"

definition month_name :: "nat \<Rightarrow> pystr" where
  "month_name m =
     (if m = 1 then lit ''January'' else if m = 2 then lit ''February''
      else if m = 3 then lit ''March'' else if m = 4 then lit ''April''
      else if m = 5 then lit ''May'' else if m = 6 then lit ''June''
      else if m = 7 then lit ''July'' else if m = 8 then lit ''August''
      else if m = 9 then lit ''September'' else if m = 10 then lit ''October''
      else if m = 11 then lit ''November'' else lit ''December'')"

text \<open>\<open>strftime('%B %d, %Y at %I:%M %p')\<close> in the C locale.\<close>

definition strftime_report :: "datetime \<Rightarrow> pystr" where
  "strftime_report t =
     month_name (month t) @ lit '' '' @ pad2 (day t) @ lit '', '' @ digits (year t)
     @ lit '' at '' @ pad2 (if hour t mod 12 = 0 then 12 else hour t mod 12)
     @ lit '':'' @ pad2 (minute t) @ lit '' '' @ (if hour t < 12 then lit ''AM'' else lit ''PM'')"

text \<open>\<open>name[:n] + '...' if len(name) > n else name\<close>.\<close>

definition truncate_name :: "nat \<Rightarrow> pystr \<Rightarrow> pystr" where
  "truncate_name n s = (if n < length s then take n s @ lit ''...'' else s)"

subsection \<open>Documents\<close>

text \<open>
  The generator assembles a list of flowables and hands it to the PDF library, which is
  outside the repository; the document below is what the library is given. Paragraphs
  name their style in the style sheet; a table carries its cell texts, column widths,
  \<open>repeatRows\<close> and style commands (name, first cell, last cell, arguments).
\<close>

datatype style_arg = Colour string | Font string | Align string | Size pyval | Colours "string list"

type_synonym style_cmd = "string \<times> (int \<times> int) \<times> (int \<times> int) \<times> style_arg list"

datatype flowable =
    Paragraph pystr string
  | Spacer pyval pyfloat
  | Table "pystr list list" "pyfloat list" "nat option" "style_cmd list"

record document =
  pagesize :: string
  topMargin :: pyfloat
  bottomMargin :: pyfloat
  story :: "flowable list"

definition inch :: pyfloat where
  "inch = Fin 72"

text \<open>
  The method's only parameter is \<open>products\<close>; \<open>datetime.now()\<close> reads the clock of the
  world the call runs in.
\<close>

record world =
  wall_clock :: datetime

definition footer :: "flowable list" where
  "footer =
     [Spacer (PInt 1) (fmul (flit (3 / 10)) inch),
      Paragraph (lit ''<i>Report generated by Inventory Management System</i>'') ''CustomSubtitle'']"

subsection \<open>Full listing\<close>

definition full_summary_style :: "style_cmd list" where
  "full_summary_style =
     [(''BACKGROUND'', (0, 0), (- 1, 0), [Colour ''#667eea'']),
      (''TEXTCOLOR'', (0, 0), (- 1, 0), [Colour ''whitesmoke'']),
      (''ALIGN'', (0, 0), (- 1, - 1), [Align ''CENTER'']),
      (''FONTNAME'', (0, 0), (- 1, 0), [Font ''Helvetica-Bold'']),
      (''FONTSIZE'', (0, 0), (- 1, 0), [Size (PInt 11)]),
      (''BOTTOMPADDING'', (0, 0), (- 1, 0), [Size (PInt 12)]),
      (''BACKGROUND'', (0, 1), (- 1, - 1), [Colour ''#f0f4ff'']),
      (''TEXTCOLOR'', (0, 1), (- 1, - 1), [Colour ''#2c3e50'']),
      (''FONTNAME'', (0, 1), (- 1, - 1), [Font ''Helvetica-Bold'']),
      (''FONTSIZE'', (0, 1), (- 1, - 1), [Size (PInt 12)]),
      (''GRID'', (0, 0), (- 1, - 1), [Size (PInt 1), Colour ''#667eea'']),
      (''TOPPADDING'', (0, 1), (- 1, - 1), [Size (PInt 10)]),
      (''BOTTOMPADDING'', (0, 1), (- 1, - 1), [Size (PInt 10)])]"

definition full_table_style :: "style_cmd list" where
  "full_table_style =
     [(''BACKGROUND'', (0, 0), (- 1, 0), [Colour ''#667eea'']),
      (''TEXTCOLOR'', (0, 0), (- 1, 0), [Colour ''whitesmoke'']),
      (''ALIGN'', (0, 0), (- 1, 0), [Align ''CENTER'']),
      (''FONTNAME'', (0, 0), (- 1, 0), [Font ''Helvetica-Bold'']),
      (''FONTSIZE'', (0, 0), (- 1, 0), [Size (PInt 10)]),
      (''BOTTOMPADDING'', (0, 0), (- 1, 0), [Size (PInt 10)]),
      (''TOPPADDING'', (0, 0), (- 1, 0), [Size (PInt 10)]),
      (''BACKGROUND'', (0, 1), (- 1, - 1), [Colour ''white'']),
      (''TEXTCOLOR'', (0, 1), (- 1, - 1), [Colour ''#2c3e50'']),
      (''ALIGN'', (0, 1), (0, - 1), [Align ''CENTER'']),
      (''ALIGN'', (1, 1), (2, - 1), [Align ''LEFT'']),
      (''ALIGN'', (3, 1), (- 1, - 1), [Align ''CENTER'']),
      (''FONTNAME'', (0, 1), (- 1, - 1), [Font ''Helvetica'']),
      (''FONTSIZE'', (0, 1), (- 1, - 1), [Size (PInt 9)]),
      (''TOPPADDING'', (0, 1), (- 1, - 1), [Size (PInt 6)]),
      (''BOTTOMPADDING'', (0, 1), (- 1, - 1), [Size (PInt 6)]),
      (''GRID'', (0, 0), (- 1, - 1), [Size (PFloat (flit (1 / 2))), Colour ''grey'']),
      (''ROWBACKGROUNDS'', (0, 1), (- 1, - 1), [Colours [''white'', ''#f8f9ff'']])]"

text \<open>One row of the product table; the two status texts start with a symbol.\<close>

definition full_row :: "Product \<Rightarrow> exn + pystr list" where
  "full_row product =
     (case int_times_float (quantity product) (price product) of
        Inl e \<Rightarrow> Inl e
      | Inr total_product_value \<Rightarrow>
          (let status = (if quantity product < 10 then [9888, 65039] @ lit '' Low Stock''
                         else [10003] @ lit '' In Stock'')
           in Inr [str_int (id' product),
                   truncate_name 30 (name product),
                   category product,
                   str_int (quantity product),
                   lit ''$'' @ format_2f False (price product),
                   lit ''$'' @ format_2f False total_product_value,
                   status]))"

definition full_highlight :: "Product list \<Rightarrow> style_cmd list" where
  "full_highlight products =
     concat (map (\<lambda>(i, product).
                    if quantity product < 10
                    then [(''TEXTCOLOR'', (6, int i), (6, int i), [Colour ''#ff9800'']),
                          (''FONTNAME'', (6, int i), (6, int i), [Font ''Helvetica-Bold''])]
                    else [])
                 (enumerate 1 products))"

definition generate_full_product_list :: "world \<Rightarrow> Product list \<Rightarrow> exn + document" where
  "generate_full_product_list w products =
     (let title = Paragraph (lit ''Complete Product Inventory'') ''CustomTitle'';
          subtitle_text = lit ''Generated on '' @ strftime_report (wall_clock w)
                          @ lit ''<br/>Total Products: '' @ str_int (int (length products));
          subtitle = Paragraph subtitle_text ''CustomSubtitle'';
          total_quantity = sum_list (map quantity products)
      in case traverse (\<lambda>p. int_times_float (quantity p) (price p)) products of
           Inl e \<Rightarrow> Inl e
         | Inr values \<Rightarrow>
             (let total_value = foldl fadd (Fin 0) values;
                  low_stock_count = length (filter (\<lambda>p. quantity p < 10) products);
                  summary_data =
                    [[lit ''Total Products'', lit ''Total Quantity'', lit ''Total Value'',
                      lit ''Low Stock Items''],
                     [str_int (int (length products)), str_int total_quantity,
                      lit ''$'' @ format_2f True total_value, str_int (int low_stock_count)]];
                  summary_table =
                    Table summary_data
                      [fmul (flit (3 / 2)) inch, fmul (flit (3 / 2)) inch,
                       fmul (flit (3 / 2)) inch, fmul (flit (3 / 2)) inch]
                      None full_summary_style;
                  header = Paragraph (lit ''Product Details'') ''CustomHeader''
              in case traverse full_row products of
                   Inl e \<Rightarrow> Inl e
                 | Inr rows \<Rightarrow>
                     (let data = [lit ''ID'', lit ''Name'', lit ''Category'', lit ''Quantity'',
                                  lit ''Price'', lit ''Total Value'', lit ''Status''] # rows;
                          col_widths = [fmul (flit (4 / 10)) inch, fmul (flit 2) inch,
                                        fmul (flit (12 / 10)) inch, fmul (flit (8 / 10)) inch,
                                        fmul (flit (8 / 10)) inch, fmul (flit 1) inch,
                                        fmul (flit 1) inch];
                          table = Table data col_widths (Some 1)
                                    (full_table_style @ full_highlight products)
                      in Inr \<lparr>pagesize = ''letter'',
                               topMargin = fmul (flit (1 / 2)) inch,
                               bottomMargin = fmul (flit (1 / 2)) inch,
                               story = [title, subtitle, Spacer (PInt 1) (fmul (flit (3 / 10)) inch),
                                        summary_table, Spacer (PInt 1) (fmul (flit (4 / 10)) inch),
                                        header, Spacer (PInt 1) (fmul (flit (1 / 10)) inch),
                                        table] @ footer\<rparr>)))"

subsection \<open>Low-stock report\<close>

definition low_summary_style :: "style_cmd list" where
  "low_summary_style =
     [(''BACKGROUND'', (0, 0), (- 1, 0), [Colour ''#ff9800'']),
      (''TEXTCOLOR'', (0, 0), (- 1, 0), [Colour ''whitesmoke'']),
      (''ALIGN'', (0, 0), (- 1, - 1), [Align ''CENTER'']),
      (''FONTNAME'', (0, 0), (- 1, 0), [Font ''Helvetica-Bold'']),
      (''FONTSIZE'', (0, 0), (- 1, 0), [Size (PInt 11)]),
      (''BOTTOMPADDING'', (0, 0), (- 1, 0), [Size (PInt 12)]),
      (''BACKGROUND'', (0, 1), (- 1, - 1), [Colour ''#fff5f5'']),
      (''TEXTCOLOR'', (0, 1), (- 1, - 1), [Colour ''#ff9800'']),
      (''FONTNAME'', (0, 1), (- 1, - 1), [Font ''Helvetica-Bold'']),
      (''FONTSIZE'', (0, 1), (- 1, - 1), [Size (PInt 14)]),
      (''GRID'', (0, 0), (- 1, - 1), [Size (PInt 1), Colour ''#ff9800'']),
      (''TOPPADDING'', (0, 1), (- 1, - 1), [Size (PInt 10)]),
      (''BOTTOMPADDING'', (0, 1), (- 1, - 1), [Size (PInt 10)])]"

definition low_table_style :: "style_cmd list" where
  "low_table_style =
     [(''BACKGROUND'', (0, 0), (- 1, 0), [Colour ''#ff9800'']),
      (''TEXTCOLOR'', (0, 0), (- 1, 0), [Colour ''whitesmoke'']),
      (''ALIGN'', (0, 0), (- 1, 0), [Align ''CENTER'']),
      (''FONTNAME'', (0, 0), (- 1, 0), [Font ''Helvetica-Bold'']),
      (''FONTSIZE'', (0, 0), (- 1, 0), [Size (PInt 9)]),
      (''BOTTOMPADDING'', (0, 0), (- 1, 0), [Size (PInt 10)]),
      (''TOPPADDING'', (0, 0), (- 1, 0), [Size (PInt 10)]),
      (''BACKGROUND'', (0, 1), (- 1, - 1), [Colour ''white'']),
      (''TEXTCOLOR'', (0, 1), (- 1, - 1), [Colour ''#2c3e50'']),
      (''ALIGN'', (0, 1), (1, - 1), [Align ''CENTER'']),
      (''ALIGN'', (2, 1), (3, - 1), [Align ''LEFT'']),
      (''ALIGN'', (4, 1), (- 1, - 1), [Align ''CENTER'']),
      (''FONTNAME'', (0, 1), (- 1, - 1), [Font ''Helvetica'']),
      (''FONTSIZE'', (0, 1), (- 1, - 1), [Size (PInt 9)]),
      (''TOPPADDING'', (0, 1), (- 1, - 1), [Size (PInt 6)]),
      (''BOTTOMPADDING'', (0, 1), (- 1, - 1), [Size (PInt 6)]),
      (''GRID'', (0, 0), (- 1, - 1), [Size (PFloat (flit (1 / 2))), Colour ''grey'']),
      (''ROWBACKGROUNDS'', (0, 1), (- 1, - 1), [Colours [''#fff5f5'', ''#ffe8e8'']])]"

text \<open>
  The priority label (a coloured circle, a space and the word) and the suggested reorder
  quantity of a row.
\<close>

definition priority :: "Product \<Rightarrow> pystr" where
  "priority product =
     (if quantity product < 5 then [128308] @ lit '' Critical'' else [128993] @ lit '' Low'')"

definition suggested_reorder :: "Product \<Rightarrow> int" where
  "suggested_reorder product = max (20 - quantity product) 10"

definition low_stock_row :: "Product \<Rightarrow> exn + pystr list" where
  "low_stock_row product =
     (case int_times_float (quantity product) (price product) of
        Inl e \<Rightarrow> Inl e
      | Inr total_product_value \<Rightarrow>
          Inr [priority product,
               str_int (id' product),
               truncate_name 25 (name product),
               category product,
               str_int (quantity product),
               lit ''$'' @ format_2f False (price product),
               lit ''$'' @ format_2f False total_product_value,
               lit ''+'' @ str_int (suggested_reorder product)])"

definition low_highlight :: "Product list \<Rightarrow> style_cmd list" where
  "low_highlight low_stock_products =
     concat (map (\<lambda>(i, product).
                    if quantity product < 5
                    then [(''TEXTCOLOR'', (0, int i), (0, int i), [Colour ''#dc2626'']),
                          (''FONTNAME'', (0, int i), (0, int i), [Font ''Helvetica-Bold''])]
                    else [])
                 (enumerate 1 low_stock_products))"

definition recommendations_text :: pystr where
  "recommendations_text =
     lit ''\<newline>            '' @ [8226]
     @ lit '' <b>Critical items (&lt; 5 units):</b> Immediate reorder required<br/>\<newline>            ''
     @ [8226]
     @ lit '' <b>Low stock items (&lt; 10 units):</b> Schedule reorder within 1-2 weeks<br/>\<newline>            ''
     @ [8226]
     @ lit '' <b>Suggested reorder quantities:</b> Shown in ''
     @ [34] @ lit ''Reorder'' @ [34] @ lit '' column<br/>\<newline>            ''
     @ [8226]
     @ lit '' <b>Review pricing:</b> Consider bulk purchase discounts for frequently low-stock items\<newline>            ''"

definition generate_low_stock_report :: "world \<Rightarrow> Product list \<Rightarrow> exn + document" where
  "generate_low_stock_report w products =
     (let low_stock_products = filter (\<lambda>p. quantity p < 10) products;
          title = Paragraph ([9888, 65039] @ lit '' Low Stock Alert Report'') ''CustomTitle'';
          subtitle_text = lit ''Generated on '' @ strftime_report (wall_clock w)
                          @ lit ''<br/>Low Stock Items: ''
                          @ str_int (int (length low_stock_products));
          subtitle = Paragraph subtitle_text ''CustomSubtitle'';
          top = [title, subtitle, Spacer (PInt 1) (fmul (flit (3 / 10)) inch)];
          page = \<lparr>pagesize = ''letter'', topMargin = fmul (flit (1 / 2)) inch,
                  bottomMargin = fmul (flit (1 / 2)) inch, story = []\<rparr>
      in if low_stock_products = []
         then Inr (page\<lparr>story :=
                top @ [Paragraph (lit ''<para align=center><b>'' @ [10003]
                         @ lit '' All products are adequately stocked!</b><br/><br/>No items with quantity below 10.</para>'')
                         ''Normal'']
                @ footer\<rparr>)
         else
          (case traverse (\<lambda>p. int_times_float (quantity p) (price p)) low_stock_products of
             Inl e \<Rightarrow> Inl e
           | Inr values \<Rightarrow>
               (let total_low_stock_value = foldl fadd (Fin 0) values;
                    critical_items = length (filter (\<lambda>p. quantity p < 5) low_stock_products);
                    summary_data =
                      [[lit ''Low Stock Items'', lit ''Critical Items (< 5)'',
                        lit ''Total Value at Risk''],
                       [str_int (int (length low_stock_products)), str_int (int critical_items),
                        lit ''$'' @ format_2f True total_low_stock_value]];
                    summary_table =
                      Table summary_data
                        [fmul (flit 2) inch, fmul (flit 2) inch, fmul (flit 2) inch]
                        None low_summary_style;
                    header = Paragraph (lit ''Products Requiring Attention'') ''CustomHeader'';
                    low_stock_products = sort_key quantity low_stock_products
                in case traverse low_stock_row low_stock_products of
                     Inl e \<Rightarrow> Inl e
                   | Inr rows \<Rightarrow>
                       (let data = [lit ''Priority'', lit ''ID'', lit ''Name'', lit ''Category'',
                                    lit ''Qty'', lit ''Price'', lit ''Total Value'', lit ''Reorder'']
                                   # rows;
                            col_widths = [fmul (flit (9 / 10)) inch, fmul (flit (4 / 10)) inch,
                                          fmul (flit (18 / 10)) inch, fmul (flit (11 / 10)) inch,
                                          fmul (flit (5 / 10)) inch, fmul (flit (7 / 10)) inch,
                                          fmul (flit (9 / 10)) inch, fmul (flit (7 / 10)) inch];
                            table = Table data col_widths (Some 1)
                                      (low_table_style @ low_highlight low_stock_products);
                            recommendations_header =
                              Paragraph ([128203] @ lit '' Recommendations'') ''CustomHeader'';
                            recommendations = Paragraph recommendations_text ''Normal''
                        in Inr (page\<lparr>story :=
                             top @ [summary_table, Spacer (PInt 1) (fmul (flit (4 / 10)) inch),
                                    header, Spacer (PInt 1) (fmul (flit (1 / 10)) inch),
                                    table, Spacer (PInt 1) (fmul (flit (3 / 10)) inch),
                                    recommendations_header, recommendations]
                             @ footer\<rparr>)))))"

subsection \<open>The bytes returned\<close>

text \<open>
  Both methods end with \<open>doc.build(story)\<close> and return \<open>buffer.getvalue()\<close>. The PDF
  library is outside the repository: \<open>build\<close> is its rendering of a document, and it is
  given, next to the document, whatever the library reads on its own while it builds
  (its own reading of the clock for the dates it stamps into the file, and the document
  identifier it generates). The library may raise as well. \<open>generate_full_product_list\<close>
  and \<open>generate_low_stock_report\<close> above are the two methods up to this call; the two
  functions below are the methods as a whole.
\<close>

definition generate_full_product_list_bytes ::
  "('e \<Rightarrow> document \<Rightarrow> exn + nat list) \<Rightarrow> 'e \<Rightarrow> world \<Rightarrow> Product list \<Rightarrow> exn + nat list" where
  "generate_full_product_list_bytes build library_reads w products =
     (case generate_full_product_list w products of
        Inl e \<Rightarrow> Inl e
      | Inr doc \<Rightarrow> build library_reads doc)"

definition generate_low_stock_report_bytes ::
  "('e \<Rightarrow> document \<Rightarrow> exn + nat list) \<Rightarrow> 'e \<Rightarrow> world \<Rightarrow> Product list \<Rightarrow> exn + nat list" where
  "generate_low_stock_report_bytes build library_reads w products =
     (case generate_low_stock_report w products of
        Inl e \<Rightarrow> Inl e
      | Inr doc \<Rightarrow> build library_reads doc)"

section \<open>Specification-side notions and example data\<close>

text \<open>
  Following the spec's wording for the transaction helper: every statement of the
  sequence applied in order to the data, or the driver's message of the first one that
  fails.
\<close>

fun all_statements_applied ::
  "('db, 'row) engine \<Rightarrow> 'db \<Rightarrow> (pystr \<times> pyval list option) list \<Rightarrow> pystr + 'db" where
  "all_statements_applied eng d [] = Inr d"
| "all_statements_applied eng d ((query, params) # queries) =
     (case execute eng query (case params of None \<Rightarrow> [] | Some ps \<Rightarrow> ps) d of
        Inl msg \<Rightarrow> Inl msg
      | Inr (cur, d') \<Rightarrow> all_statements_applied eng d' queries)"

text \<open>The number of \<open>%s\<close> placeholders in a statement text, counted left to right.\<close>

fun placeholders :: "pystr \<Rightarrow> nat" where
  "placeholders (a # b # cs) =
     (if a = 37 \<and> b = 115 then Suc (placeholders cs) else placeholders (b # cs))"
| "placeholders _ = 0"

text \<open>
  Following the spec's wording for the query builder: the conditions in the fixed order
  category, minimum and maximum price, minimum and maximum quantity, search, low stock,
  each with the arguments it contributes.
\<close>

definition filter_clauses :: "ProductFilter \<Rightarrow> (pystr \<times> pyval list) list" where
  "filter_clauses f =
     (if truthy_str (filter_category f)
      then [(lit ''category = %s'', [PStr (the (filter_category f))])] else [])
     @ (if min_price f \<noteq> None then [(lit ''price >= %s'', [PFloat (the (min_price f))])] else [])
     @ (if max_price f \<noteq> None then [(lit ''price <= %s'', [PFloat (the (max_price f))])] else [])
     @ (if min_quantity f \<noteq> None
        then [(lit ''quantity >= %s'', [PInt (the (min_quantity f))])] else [])
     @ (if max_quantity f \<noteq> None
        then [(lit ''quantity <= %s'', [PInt (the (max_quantity f))])] else [])
     @ (if truthy_str (search f)
        then [(lit ''(name LIKE %s OR description LIKE %s)'',
               [PStr (lit ''%'' @ the (search f) @ lit ''%''),
                PStr (lit ''%'' @ the (search f) @ lit ''%'')])]
        else [])
     @ (if truthy_bool (low_stock f) then [(lit ''quantity < 10'', [])] else [])"

definition no_filters :: "ProductFilter \<Rightarrow> bool" where
  "no_filters f =
     (\<not> truthy_str (filter_category f) \<and> min_price f = None \<and> max_price f = None
      \<and> min_quantity f = None \<and> max_quantity f = None \<and> \<not> truthy_str (search f)
      \<and> \<not> truthy_bool (low_stock f))"

text \<open>A condition text that is not empty and does not end in a percent sign.\<close>

definition ends_clean :: "pystr \<Rightarrow> bool" where
  "ends_clean c = (c \<noteq> [] \<and> last c \<noteq> 37)"

text \<open>Example data: one product, as stored and as read back, and empty requests.\<close>

definition example_time :: datetime where
  "example_time =
     \<lparr>year = 2024, month = 1, day = 5, hour = 0, minute = 7, second = 9, microsecond = 0\<rparr>"

definition widget_row :: row where
  "widget_row = (1, lit ''Widget'', lit ''Tools'', 3, 4, None, example_time, example_time)"

definition widget :: Product where
  "widget = \<lparr>name = lit ''Widget'', category = lit ''Tools'', quantity = 3, price = Fin 4,
             description = None, id' = 1, created_at = example_time, updated_at = example_time\<rparr>"

definition widget_store :: store where
  "widget_store = \<lparr>table = [widget_row], next_id = 2, clock = example_time, fault = None\<rparr>"

definition no_changes :: ProductUpdate where
  "no_changes = \<lparr>upd_name = None, upd_category = None, upd_quantity = None, upd_price = None,
                 upd_description = None\<rparr>"

definition widget_body :: "pyfloat \<Rightarrow> ProductBase" where
  "widget_body p = \<lparr>name = lit ''Widget'', category = lit ''Tools'', quantity = 3, price = p,
                     description = None\<rparr>"

definition unfiltered :: ProductFilter where
  "unfiltered = \<lparr>filter_category = None, min_price = None, max_price = None,
                 min_quantity = None, max_quantity = None, search = None, low_stock = None\<rparr>"

definition example_world :: world where
  "example_world = \<lparr>wall_clock = example_time\<rparr>"

section \<open>Validation (models.py)\<close>

lemma float64_4: "float64 4 = Fin 4"
  by code_simp

lemma py_round2_4: "py_round2 (Fin 4) = Fin 4"
  by code_simp

lemma flit_19999: "flit (19999 / 1000) = Fin (5629218059236409 / 281474976710656)"
  by code_simp

lemma py_round2_19999: "py_round2 (Fin (5629218059236409 / 281474976710656)) = Fin 20"
  by code_simp

lemma flit_0001: "flit (1 / 1000) = Fin (1152921504606847 / 1152921504606846976)"
  by code_simp

lemma py_round2_0001: "py_round2 (Fin (1152921504606847 / 1152921504606846976)) = Fin 0"
  by code_simp

lemmas ProductBase_defs =
  ProductBase_name_def ProductBase_category_def ProductBase_quantity_def ProductBase_price_def
  ProductBase_description_def ProductBase_validate_name_def ProductBase_validate_category_def
  ProductBase_validate_quantity_def ProductBase_validate_price_def field_errors_def

lemmas ProductUpdate_defs =
  ProductUpdate_name_def ProductUpdate_category_def ProductUpdate_quantity_def
  ProductUpdate_price_def ProductBase_description_def ProductUpdate_validate_name_def
  ProductUpdate_validate_category_def ProductUpdate_validate_quantity_def
  ProductUpdate_validate_price_def field_errors_def

lemma strip_Widget: "strip (lit ''Widget'') = lit ''Widget''"
  by (simp add: strip_def lit_def py_isspace_def)

lemma strip_Tools: "strip (lit ''Tools'') = lit ''Tools''"
  by (simp add: strip_def lit_def py_isspace_def)

lemma lit_nonempty:
  "lit ''Widget'' \<noteq> []" "lit ''Tools'' \<noteq> []"
  "length (lit ''Widget'') = 6" "length (lit ''Tools'') = 5"
  by (simp_all add: lit_def)

lemma field_errors_Nil: "field_errors f r = [] \<longleftrightarrow> (\<exists>x. r = Inr x)"
  by (cases r) (simp_all add: field_errors_def)

lemma ProductBase_price_Inr:
  "ProductBase_price v = Inr x \<Longrightarrow> x = py_round2 v \<and> float_gt0 v"
  by (auto simp: ProductBase_price_def ProductBase_validate_price_def split: if_splits)

lemma ProductUpdate_price_Inr:
  "ProductUpdate_price v = Inr x \<Longrightarrow> x = map_option py_round2 v"
  by (auto simp: ProductUpdate_price_def ProductUpdate_validate_price_def
      split: if_splits option.splits)

lemma new_ProductCreate_Inr:
  assumes "new_ProductCreate raw = Inr p"
  shows "ProductBase_name (name raw) = Inr (name p)"
    and "ProductBase_category (category raw) = Inr (category p)"
    and "ProductBase_quantity (quantity raw) = Inr (quantity p)"
    and "ProductBase_price (price raw) = Inr (price p)"
    and "ProductBase_description (description raw) = Inr (description p)"
  using assms
  by (auto simp: new_ProductCreate_def Let_def field_errors_Nil split: if_splits)

lemma new_ProductUpdate_Inr:
  assumes "new_ProductUpdate raw = Inr p"
  shows "ProductUpdate_name (upd_name raw) = Inr (upd_name p)"
    and "ProductUpdate_category (upd_category raw) = Inr (upd_category p)"
    and "ProductUpdate_quantity (upd_quantity raw) = Inr (upd_quantity p)"
    and "ProductUpdate_price (upd_price raw) = Inr (upd_price p)"
    and "ProductBase_description (upd_description raw) = Inr (upd_description p)"
  using assms
  by (auto simp: new_ProductUpdate_def Let_def field_errors_Nil split: if_splits)

lemma round_half_even_near: "\<bar>of_int (round_half_even q) - q\<bar> \<le> 1 / 2"
  unfolding round_half_even_def Let_def
  by (auto simp: abs_if not_less; linarith)

lemma round_dec2_near: "\<bar>round_dec2 r - r\<bar> \<le> 1 / 200"
  using round_half_even_near [of "r * 100"] unfolding round_dec2_def
  by (simp add: abs_if field_simps split: if_splits)

lemma create_19999:
  "new_ProductCreate (widget_body (flit (19999 / 1000))) = Inr (widget_body (Fin 20))"
  by (simp add: widget_body_def new_ProductCreate_def ProductBase_defs flit_19999
      py_round2_19999 strip_Widget strip_Tools lit_nonempty del: py_round2.simps)

text \<open>
  What validation does guarantee: a validated product has a non-negative quantity, a name
  and a category that are non-empty and already stripped, and a price that is zero or
  positive.
\<close>

lemma strip_prefix: "\<exists>zs. dropWhile py_isspace s = strip s @ zs"
proof -
  have "rev (dropWhile py_isspace s)
      = takeWhile py_isspace (rev (dropWhile py_isspace s))
        @ dropWhile py_isspace (rev (dropWhile py_isspace s))"
    by simp
  then have "dropWhile py_isspace s
      = rev (dropWhile py_isspace (rev (dropWhile py_isspace s)))
        @ rev (takeWhile py_isspace (rev (dropWhile py_isspace s)))"
    by (metis rev_append rev_rev_ident)
  then show ?thesis unfolding strip_def by blast
qed

lemma strip_head: "strip s \<noteq> [] \<Longrightarrow> \<not> py_isspace (hd (strip s))"
proof -
  assume ne: "strip s \<noteq> []"
  obtain zs where z: "dropWhile py_isspace s = strip s @ zs" using strip_prefix by blast
  with ne have "dropWhile py_isspace s \<noteq> []" by simp
  then have "\<not> py_isspace (hd (dropWhile py_isspace s))" by (rule hd_dropWhile)
  with z ne show ?thesis by simp
qed

lemma strip_idem: "strip (strip s) = strip s"
proof -
  have d: "dropWhile py_isspace (strip s) = strip s"
    using strip_head [of s] by (cases "strip s") auto
  have "rev (strip s) = dropWhile py_isspace (rev (dropWhile py_isspace s))"
    by (simp add: strip_def)
  then have "dropWhile py_isspace (rev (strip s)) = rev (strip s)"
    by (simp add: dropWhile_idem)
  with d show ?thesis by (simp add: strip_def [of "strip s"])
qed

lemma pow2_pos: "0 < pow2 e"
  by (simp add: pow2_def)

lemma round_half_even_nonneg: "0 \<le> q \<Longrightarrow> 0 \<le> round_half_even q"
  unfolding round_half_even_def Let_def by (auto simp: not_less)

lemma float64_nonneg:
  "0 \<le> q \<Longrightarrow> float64 q = PInf \<or> (\<exists>m. float64 q = Fin m \<and> 0 \<le> m)"
proof -
  assume q: "0 \<le> q"
  have "0 \<le> round_half_even (\<bar>q\<bar> / pow2 (max (ilog2 \<bar>q\<bar>) (- 1022) - 52))"
    by (rule round_half_even_nonneg) (simp add: pow2_pos less_imp_le)
  then have "0 \<le> rat_of_int (round_half_even (\<bar>q\<bar> / pow2 (max (ilog2 \<bar>q\<bar>) (- 1022) - 52)))
      * pow2 (max (ilog2 \<bar>q\<bar>) (- 1022) - 52)"
    by (simp add: pow2_pos less_imp_le)
  with q show ?thesis
    by (auto simp: float64_def Let_def)
qed

lemma round_dec2_nonneg: "0 \<le> r \<Longrightarrow> 0 \<le> round_dec2 r"
  by (simp add: round_dec2_def round_half_even_nonneg)

lemma py_round2_nonneg:
  "float_gt0 v \<Longrightarrow> py_round2 v = Fin 0 \<or> float_gt0 (py_round2 v)"
proof (cases v)
  case (Fin r)
  assume "float_gt0 v"
  with Fin have "0 \<le> round_dec2 r" by (simp add: round_dec2_nonneg)
  from float64_nonneg [OF this] Fin show ?thesis by (auto simp: less_le)
qed auto

lemma validated_product_invariants:
  assumes "new_ProductCreate raw = Inr p"
  shows "0 \<le> quantity p"
    and "name p \<noteq> []" and "strip (name p) = name p"
    and "category p \<noteq> []" and "strip (category p) = category p"
    and "price p = Fin 0 \<or> float_gt0 (price p)"
proof -
  note f = new_ProductCreate_Inr [OF assms]
  from f(3) show "0 \<le> quantity p"
    by (auto simp: ProductBase_quantity_def ProductBase_validate_quantity_def split: if_splits)
  from f(1) have n: "name p = strip (name raw)" "strip (name raw) \<noteq> []"
    by (auto simp: ProductBase_name_def ProductBase_validate_name_def split: if_splits)
  then show "name p \<noteq> []" "strip (name p) = name p"
    by (simp_all add: strip_idem)
  from f(2) have c: "category p = strip (category raw)" "strip (category raw) \<noteq> []"
    by (auto simp: ProductBase_category_def ProductBase_validate_category_def split: if_splits)
  then show "category p \<noteq> []" "strip (category p) = category p"
    by (simp_all add: strip_idem)
  from ProductBase_price_Inr [OF f(4)] show "price p = Fin 0 \<or> float_gt0 (price p)"
    using py_round2_nonneg by auto
qed

lemma validated_update_invariants:
  assumes "new_ProductUpdate raw = Inr u"
  shows "\<forall>q. upd_quantity u = Some q \<longrightarrow> 0 \<le> q"
    and "\<forall>n. upd_name u = Some n \<longrightarrow> n \<noteq> [] \<and> strip n = n"
    and "\<forall>c. upd_category u = Some c \<longrightarrow> c \<noteq> [] \<and> strip c = c"
    and "\<forall>x. upd_price u = Some x \<longrightarrow> x = Fin 0 \<or> float_gt0 x"
proof -
  note f = new_ProductUpdate_Inr [OF assms]
  from f(3) show "\<forall>q. upd_quantity u = Some q \<longrightarrow> 0 \<le> q"
    by (auto simp: ProductUpdate_quantity_def ProductUpdate_validate_quantity_def
        split: if_splits option.splits)
  from f(1) show "\<forall>n. upd_name u = Some n \<longrightarrow> n \<noteq> [] \<and> strip n = n"
    by (auto simp: ProductUpdate_name_def ProductUpdate_validate_name_def strip_idem
        split: if_splits option.splits)
  from f(2) show "\<forall>c. upd_category u = Some c \<longrightarrow> c \<noteq> [] \<and> strip c = c"
    by (auto simp: ProductUpdate_category_def ProductUpdate_validate_category_def strip_idem
        split: if_splits option.splits)
  from f(4) show "\<forall>x. upd_price u = Some x \<longrightarrow> x = Fin 0 \<or> float_gt0 x"
    by (auto simp: ProductUpdate_price_def ProductUpdate_validate_price_def
        split: if_splits option.splits dest: py_round2_nonneg)
qed

text \<open>
  C6. A creation or update request that passes validation carries the supplied price
  rounded to two decimals: the accepted price is \<open>round(v, 2)\<close> of the supplied one, which
  for a finite price is the float nearest to a multiple of 0.01 that lies within 0.005 of
  the supplied value. A creation request with price 19.999 is accepted with price 20.0.
\<close>

theorem accepted_price_rounded:
  "(new_ProductCreate raw = Inr p \<longrightarrow> price p = py_round2 (price raw))
   \<and> (new_ProductUpdate u = Inr u' \<longrightarrow> upd_price u' = map_option py_round2 (upd_price u))
   \<and> py_round2 (Fin r) = float64 (round_dec2 r)
   \<and> round_dec2 r * 100 = of_int (round_half_even (r * 100))
   \<and> \<bar>round_dec2 r - r\<bar> \<le> 1 / 200
   \<and> (price raw = flit (19999 / 1000) \<longrightarrow> new_ProductCreate raw = Inr p \<longrightarrow> price p = Fin 20)"
proof -
  have a: "price p = py_round2 (price raw)" if "new_ProductCreate raw = Inr p"
    using new_ProductCreate_Inr(4) [OF that] ProductBase_price_Inr by blast
  have b: "upd_price u' = map_option py_round2 (upd_price u)" if "new_ProductUpdate u = Inr u'"
    using new_ProductUpdate_Inr(4) [OF that] ProductUpdate_price_Inr by blast
  have c: "round_dec2 r * 100 = of_int (round_half_even (r * 100))"
    by (simp add: round_dec2_def)
  have d: "price p = Fin 20"
    if "price raw = flit (19999 / 1000)" "new_ProductCreate raw = Inr p"
    using a [OF that(2)] that(1) by (simp add: flit_19999 py_round2_19999 del: py_round2.simps)
  from a b c d round_dec2_near [of r] show ?thesis by simp
qed

text \<open>
  C5. A product that passes creation or partial-update validation would have a price
  above zero. The validators test the supplied price and round it afterwards, so a
  supplied price of 0.001 passes the test and the validated model carries the price 0.0,
  both on creation and on update.
\<close>

theorem validated_price_can_be_zero:
  "new_ProductCreate (widget_body (flit (1 / 1000))) = Inr (widget_body (Fin 0))
   \<and> new_ProductUpdate (no_changes\<lparr>upd_price := Some (flit (1 / 1000))\<rparr>)
       = Inr (no_changes\<lparr>upd_price := Some (Fin 0)\<rparr>)
   \<and> float_gt0 (flit (1 / 1000)) \<and> \<not> float_gt0 (Fin 0)"
  by (simp add: widget_body_def no_changes_def new_ProductCreate_def new_ProductUpdate_def
      ProductBase_defs ProductUpdate_defs flit_0001
      py_round2_0001 strip_Widget strip_Tools lit_nonempty del: py_round2.simps)

section \<open>Product endpoints (main.py)\<close>

lemma select_exec:
  "products_execute (lit ''SELECT * FROM products WHERE id = %s'') [PInt i] st =
     Inr (no_rows\<lparr>fetchall := filter (\<lambda>r. fst r = i) (table st),
                   rowcount := int (length (filter (\<lambda>r. fst r = i) (table st)))\<rparr>, st)"
  by (simp add: products_execute_def Let_def)

lemma delete_exec:
  "products_execute (lit ''DELETE FROM products WHERE id = %s'') [PInt i] st =
     Inr (no_rows\<lparr>rowcount := int (length (filter (\<lambda>r. fst r = i) (table st)))\<rparr>,
          st\<lparr>table := filter (\<lambda>r. fst r \<noteq> i) (table st)\<rparr>)"
  by (simp add: products_execute_def lit_def)

lemma execute_query_select:
  "execute_query products_engine db (lit ''SELECT * FROM products WHERE id = %s'') (Some [PInt i]) =
     (case fault db of
        Some msg \<Rightarrow> (Inl (Exception (lit ''Query execution failed: '') (Error msg)), db)
      | None \<Rightarrow> (Inr (filter (\<lambda>r. fst r = i) (table db)), db))"
  by (simp add: execute_query_def products_engine_def execute_with_def cursor_execute_def
      get_connection_def select_exec no_rows_def split: option.splits)

lemma execute_update_delete:
  "execute_update products_engine db (lit ''DELETE FROM products WHERE id = %s'') (Some [PInt i]) =
     (case fault db of
        Some msg \<Rightarrow> (Inl (Exception (lit ''Update execution failed: '') (Error msg)), db)
      | None \<Rightarrow> (Inr (int (length (filter (\<lambda>r. fst r = i) (table db)))),
                 db\<lparr>table := filter (\<lambda>r. fst r \<noteq> i) (table db)\<rparr>))"
  by (simp add: execute_update_def products_engine_def execute_with_def cursor_execute_def
      get_connection_def delete_exec no_rows_def connection_commit_def split: option.splits)

lemma get_product_eq:
  "get_product db i =
     (case fault db of
        Some msg \<Rightarrow>
          Inl (HTTPException 500 (lit ''Failed to fetch product: '')
                 (Some (Exception (lit ''Query execution failed: '') (Error msg))))
      | None \<Rightarrow>
          (case filter (\<lambda>r. fst r = i) (table db) of
             [] \<Rightarrow> Inl (not_found i)
           | r # _ \<Rightarrow>
               (case row_product r of
                  Inl e \<Rightarrow> Inl (http_reraise (lit ''Failed to fetch product: '') e)
                | Inr p \<Rightarrow> Inr p)), db)"
  by (simp add: get_product_def execute_query_select http_reraise_def
      split: option.splits list.splits sum.splits)

lemma get_product_store: "snd (get_product db i) = db"
  by (simp add: get_product_eq)

lemma update_clauses_empty:
  "upd_name u = None \<Longrightarrow> upd_category u = None \<Longrightarrow> upd_quantity u = None \<Longrightarrow>
   upd_price u = None \<Longrightarrow> upd_description u = None \<Longrightarrow>
   update_clauses u = Inl (HTTPException 400 (lit ''No fields to update'') None)"
  by (simp add: update_clauses_def)

lemma new_ProductUpdate_empty:
  "upd_name u = None \<Longrightarrow> upd_category u = None \<Longrightarrow> upd_quantity u = None \<Longrightarrow>
   upd_price u = None \<Longrightarrow> upd_description u = None \<Longrightarrow>
   new_ProductUpdate u = Inr u"
  by (simp add: new_ProductUpdate_def ProductUpdate_defs)

lemma row_product_widget: "row_product widget_row = Inr widget"
  by (simp add: row_product_def widget_row_def widget_def new_Product_def ProductBase_defs
      float64_4 py_round2_4 strip_Widget strip_Tools lit_nonempty del: py_round2.simps)

lemma get_product_widget: "get_product widget_store 1 = (Inr widget, widget_store)"
  by (simp add: get_product_eq widget_store_def row_product_widget) (simp add: widget_row_def)

lemma float64_20: "float64 20 = Fin 20"
  by code_simp

lemma py_round2_20: "py_round2 (Fin 20) = Fin 20"
  by code_simp

lemma round_dec2_20: "round_dec2 20 = 20"
  by code_simp

lemma insert_exec:
  "products_execute
     (lit ''\<newline>        INSERT INTO products (name, category, quantity, price, description)\<newline>        VALUES (%s, %s, %s, %s, %s)\<newline>        '')
     [PStr n, PStr c, PInt q, PFloat (Fin p), PNone] st =
   Inr (no_rows\<lparr>rowcount := 1, lastrowid := next_id st\<rparr>,
        st\<lparr>table := table st @ [(next_id st, n, c, q, round_dec2 p, None, clock st, clock st)],
           next_id := next_id st + 1\<rparr>)"
  by (simp add: products_execute_def lit_def)

text \<open>
  End to end: a creation request with price 19.999 stores the decimal 20 and returns the
  price 20.0.
\<close>

lemma create_widget_19999:
  "post_products widget_store (widget_body (flit (19999 / 1000))) =
     (Inr (widget\<lparr>price := Fin 20, id' := 2\<rparr>),
      widget_store\<lparr>table := [widget_row,
                                (2, lit ''Widget'', lit ''Tools'', 3, 20, None, example_time, example_time)],
                    next_id := 3\<rparr>)"
proof -
  have r: "row_product (2, lit ''Widget'', lit ''Tools'', 3, 20, None, example_time, example_time)
      = Inr (widget\<lparr>price := Fin 20, id' := 2\<rparr>)"
    by (simp add: row_product_def widget_def new_Product_def ProductBase_defs
      float64_20 py_round2_20 strip_Widget strip_Tools lit_nonempty del: py_round2.simps)
  have w: "execute_with products_engine (get_connection st)
     (lit ''\<newline>        INSERT INTO products (name, category, quantity, price, description)\<newline>        VALUES (%s, %s, %s, %s, %s)\<newline>        '')
     (Some [PStr n, PStr c, PInt q, PFloat (Fin p), PNone])
     = Inr (no_rows\<lparr>rowcount := 1, lastrowid := next_id st\<rparr>,
        \<lparr>server = st\<lparr>table := table st @ [(next_id st, n, c, q, round_dec2 p, None, clock st, clock st)],
           next_id := next_id st + 1\<rparr>,
         session = st\<lparr>table := table st @ [(next_id st, n, c, q, round_dec2 p, None, clock st, clock st)],
           next_id := next_id st + 1\<rparr>, autocommit = True\<rparr>)" for st n c q p
    by (simp add: execute_with_def cursor_execute_def products_engine_def insert_exec
        get_connection_def)
  have i: "execute_insert products_engine widget_store
     (lit ''\<newline>        INSERT INTO products (name, category, quantity, price, description)\<newline>        VALUES (%s, %s, %s, %s, %s)\<newline>        '')
     (Some [PStr (lit ''Widget''), PStr (lit ''Tools''), PInt 3, PFloat (Fin 20), PNone])
     = (Inr 2, widget_store\<lparr>table := [widget_row,
                                (2, lit ''Widget'', lit ''Tools'', 3, 20, None, example_time, example_time)],
                    next_id := 3\<rparr>)"
    unfolding execute_insert_def w
    by (simp add: products_engine_def connection_commit_def no_rows_def round_dec2_20
        widget_store_def)
  have g: "get_product (widget_store\<lparr>table := [widget_row,
                                (2, lit ''Widget'', lit ''Tools'', 3, 20, None, example_time, example_time)],
                    next_id := 3\<rparr>) 2
      = (Inr (widget\<lparr>price := Fin 20, id' := 2\<rparr>),
         widget_store\<lparr>table := [widget_row,
                                (2, lit ''Widget'', lit ''Tools'', 3, 20, None, example_time, example_time)],
                    next_id := 3\<rparr>)"
    by (simp add: get_product_eq r widget_store_def widget_row_def)
  show ?thesis
    by (simp add: post_products_def create_19999 create_product_def)
       (simp add: widget_body_def optional_str_def i g)
qed

text \<open>
  The creation request with price 19.999, through validation and through the endpoint.
\<close>

theorem accepted_price_rounded_witness:
  "new_ProductCreate (widget_body (flit (19999 / 1000))) = Inr (widget_body (Fin 20))
   \<and> price (widget_body (Fin 20)) = py_round2 (price (widget_body (flit (19999 / 1000))))
   \<and> price (widget_body (Fin 20)) = Fin 20
   \<and> post_products widget_store (widget_body (flit (19999 / 1000))) =
       (Inr (widget\<lparr>price := Fin 20, id' := 2\<rparr>),
        widget_store\<lparr>table := [widget_row,
                                  (2, lit ''Widget'', lit ''Tools'', 3, 20, None, example_time, example_time)],
                      next_id := 3\<rparr>)"
  using accepted_price_rounded [of "widget_body (flit (19999 / 1000))" "widget_body (Fin 20)"]
    create_19999 create_widget_19999
  by (simp add: widget_body_def)

text \<open>
  A creation request with price 0.001 passes body validation with price 0.0 and is then
  refused by the endpoint's own test with status 400.
\<close>

lemma post_0001_rejected:
  "post_products widget_store (widget_body (flit (1 / 1000)))
     = (Inl (HTTPException 400 (lit ''Price must be greater than 0'') None), widget_store)"
proof -
  have "new_ProductCreate (widget_body (flit (1 / 1000))) = Inr (widget_body (Fin 0))"
    by (simp add: widget_body_def new_ProductCreate_def
      ProductBase_defs flit_0001 py_round2_0001 strip_Widget strip_Tools lit_nonempty
      del: py_round2.simps)
  then show ?thesis
    by (simp add: post_products_def create_product_def widget_body_def)
qed

text \<open>An update of one field goes through to the store and is read back.\<close>

lemma update_quantity_exec:
  "products_execute (lit ''UPDATE products SET '' @ lit ''quantity = %s''
                       @ lit '' WHERE id = %s'') [PInt k, PInt i] st =
     Inr (no_rows\<lparr>rowcount := int (length (filter (\<lambda>r. fst r = i) (table st)))\<rparr>,
          st\<lparr>table := map (\<lambda>r. if fst r = i
                                    then touch (clock st) (assign_all [CQuantity] [PInt k] r)
                                    else r) (table st)\<rparr>)"
  by (simp add: products_execute_def update_sql_def Let_def lit_def)

lemma update_widget_quantity:
  "update_product widget_store 1 (no_changes\<lparr>upd_quantity := Some 15\<rparr>) =
     (Inr (widget\<lparr>quantity := 15\<rparr>),
      widget_store\<lparr>table := [(1, lit ''Widget'', lit ''Tools'', 15, 4, None, example_time, example_time)]\<rparr>)"
proof -
  have c: "update_clauses (no_changes\<lparr>upd_quantity := Some 15\<rparr>)
      = Inr ([lit ''quantity = %s''], [PInt 15])"
    by (simp add: update_clauses_def no_changes_def)
  have u: "execute_update products_engine widget_store
       (lit ''UPDATE products SET '' @ lit ''quantity = %s''
          @ lit '' WHERE id = %s'') (Some [PInt 15, PInt 1])
     = (Inr 1, widget_store\<lparr>table := [(1, lit ''Widget'', lit ''Tools'', 15, 4, None, example_time, example_time)]\<rparr>)"
    unfolding execute_update_def execute_with_def cursor_execute_def
    by (simp add: products_engine_def get_connection_def update_quantity_exec
        connection_commit_def no_rows_def widget_store_def widget_row_def touch_def)
  have r: "row_product (1, lit ''Widget'', lit ''Tools'', 15, 4, None, example_time, example_time)
      = Inr (widget\<lparr>quantity := 15\<rparr>)"
    by (simp add: row_product_def widget_def new_Product_def ProductBase_defs
      float64_4 py_round2_4 strip_Widget strip_Tools lit_nonempty del: py_round2.simps)
  have g: "get_product (widget_store\<lparr>table := [(1, lit ''Widget'', lit ''Tools'', 15, 4, None, example_time, example_time)]\<rparr>) 1
      = (Inr (widget\<lparr>quantity := 15\<rparr>),
         widget_store\<lparr>table := [(1, lit ''Widget'', lit ''Tools'', 15, 4, None, example_time, example_time)]\<rparr>)"
    by (simp add: get_product_eq r widget_store_def)
  show ?thesis
    by (simp add: update_product_def get_product_widget c u g)
qed

text \<open>
  C4. An update request none of whose five fields is present, for a product that exists,
  is rejected with status 400, and the store is left as it was; this holds for the
  endpoint function and for the request that reaches it through body validation.
\<close>

theorem update_without_fields_rejected:
  assumes "upd_name u = None" "upd_category u = None" "upd_quantity u = None"
    "upd_price u = None" "upd_description u = None"
    and "fst (get_product db product_id) = Inr existing"
  shows "update_product db product_id u
           = (Inl (HTTPException 400 (lit ''No fields to update'') None), db)
    \<and> put_products db product_id u
           = (Inl (HTTPException 400 (lit ''No fields to update'') None), db)"
proof -
  have g: "get_product db product_id = (Inr existing, db)"
    using assms(6) get_product_store [of db product_id]
    by (cases "get_product db product_id") simp
  have "update_product db product_id u
          = (Inl (HTTPException 400 (lit ''No fields to update'') None), db)"
    by (simp add: update_product_def g update_clauses_empty assms http_reraise_def)
  then show ?thesis
    by (simp add: put_products_def new_ProductUpdate_empty assms)
qed

theorem update_without_fields_rejected_witness:
  "fst (get_product widget_store 1) = Inr widget
   \<and> update_product widget_store 1 no_changes
       = (Inl (HTTPException 400 (lit ''No fields to update'') None), widget_store)
   \<and> put_products widget_store 1 no_changes
       = (Inl (HTTPException 400 (lit ''No fields to update'') None), widget_store)"
proof -
  have g: "fst (get_product widget_store 1) = Inr widget"
    by (simp add: get_product_widget)
  from update_without_fields_rejected [OF _ _ _ _ _ g, of no_changes] g show ?thesis
    by (simp add: no_changes_def)
qed

text \<open>
  C8. After a delete of a product id has succeeded, a second delete of the same id on
  the resulting store answers 404 (not found) and leaves the store as it is; and whether
  or not the storage can be reached at the second call, the second delete never succeeds
  and never changes the store.
\<close>

theorem delete_twice:
  assumes "delete_product db product_id = (Inr msg, db1)"
  shows "delete_product db1 product_id = (Inl (not_found product_id), db1)
     \<and> (\<exists>e. delete_product (db1\<lparr>fault := f\<rparr>) product_id = (Inl e, db1\<lparr>fault := f\<rparr>))"
proof -
  have nf: "fault db = None"
    using assms by (auto simp: delete_product_def get_product_eq split: option.splits)
  have db1: "db1 = db\<lparr>table := filter (\<lambda>r. fst r \<noteq> product_id) (table db)\<rparr>"
    using assms nf
    by (auto simp: delete_product_def get_product_eq execute_update_delete
        split: list.splits sum.splits if_splits)
  have empty: "filter (\<lambda>r. fst r = product_id) (table db1) = []"
    by (simp add: db1 filter_empty_conv)
  have "fault db1 = None" by (simp add: db1 nf)
  then have first: "delete_product db1 product_id = (Inl (not_found product_id), db1)"
    by (simp add: delete_product_def get_product_eq empty http_reraise_def not_found_def)
  have "\<exists>e. delete_product (db1\<lparr>fault := f\<rparr>) product_id = (Inl e, db1\<lparr>fault := f\<rparr>)"
    by (cases f)
       (simp_all add: delete_product_def get_product_eq empty http_reraise_def not_found_def)
  with first show ?thesis by simp
qed

lemma delete_widget:
  "delete_product widget_store 1
     = (Inr (lit ''Product '' @ [39] @ lit ''Widget'' @ [39] @ lit '' deleted successfully''),
        widget_store\<lparr>table := []\<rparr>)"
  by (simp add: delete_product_def get_product_widget execute_update_delete)
     (simp add: widget_store_def widget_row_def widget_def)

theorem delete_twice_witness:
  "delete_product widget_store 1
     = (Inr (lit ''Product '' @ [39] @ lit ''Widget'' @ [39] @ lit '' deleted successfully''),
        widget_store\<lparr>table := []\<rparr>)
   \<and> delete_product (widget_store\<lparr>table := []\<rparr>) 1
       = (Inl (not_found 1), widget_store\<lparr>table := []\<rparr>)
   \<and> (\<exists>e. delete_product (widget_store\<lparr>table := [], fault := Some (lit ''gone'')\<rparr>) 1
            = (Inl e, widget_store\<lparr>table := [], fault := Some (lit ''gone'')\<rparr>))"
  using delete_twice [OF delete_widget, of "Some (lit ''gone'')"] delete_widget
  by simp

section \<open>Query construction\<close>

lemma placeholders_append:
  "xs = [] \<or> last xs \<noteq> 37 \<Longrightarrow> placeholders (xs @ ys) = placeholders xs + placeholders ys"
proof (induction xs rule: placeholders.induct)
  case (1 a b cs)
  then show ?case by (cases "cs = []") auto
qed (simp, cases ys, auto)

lemma placeholders_join:
  "list_all ends_clean cs \<Longrightarrow> ends_clean sep \<Longrightarrow> placeholders sep = 0 \<Longrightarrow>
   placeholders (join sep cs) = sum_list (map placeholders cs)"
proof (induction sep cs rule: join.induct)
  case (3 sep x y ys)
  then show ?case by (simp add: placeholders_append ends_clean_def)
qed simp_all

lemma build_search_query_clauses:
  "build_search_query base f =
     (if filter_clauses f = [] then base
      else base @ lit '' WHERE '' @ join (lit '' AND '') (map fst (filter_clauses f)),
      concat (map snd (filter_clauses f)))"
  by (simp add: build_search_query_def filter_clauses_def Let_def)

lemma filter_clauses_placeholders:
  "list_all (\<lambda>(cond, args). ends_clean cond \<and> placeholders cond = length args) (filter_clauses f)"
  by (simp add: filter_clauses_def lit_def ends_clean_def)

lemma where_placeholders:
  "placeholders (lit '' WHERE '' @ join (lit '' AND '') (map fst (filter_clauses f)))
     = length (concat (map snd (filter_clauses f)))"
proof -
  have c: "list_all ends_clean (map fst (filter_clauses f))"
    using filter_clauses_placeholders [of f]
    by (induction "filter_clauses f") (auto simp: list_all_iff)
  have s: "sum_list (map placeholders (map fst cl)) = length (concat (map snd cl))"
    if "list_all (\<lambda>(cond, args). ends_clean cond \<and> placeholders cond = length args) cl" for cl
    using that by (induction cl) auto
  have "placeholders (lit '' WHERE '' @ join (lit '' AND '') (map fst (filter_clauses f)))
        = placeholders (join (lit '' AND '') (map fst (filter_clauses f)))"
    by (subst placeholders_append) (simp_all add: lit_def)
  also have "\<dots> = sum_list (map placeholders (map fst (filter_clauses f)))"
    by (rule placeholders_join [OF c]) (simp_all add: lit_def ends_clean_def)
  also have "\<dots> = length (concat (map snd (filter_clauses f)))"
    by (rule s [OF filter_clauses_placeholders])
  finally show ?thesis .
qed

text \<open>
  C3. For every base statement and filter set, the query builder returns the base
  statement followed by \<open>WHERE\<close> and the conditions joined by \<open>AND\<close>, and the argument
  list, both in the fixed order category, minimum price, maximum price, minimum quantity,
  maximum quantity, search (two placeholders with the same wildcarded value), low stock
  (no placeholder). Every condition has as many placeholders as it contributes
  arguments, so the appended text has exactly as many placeholders as there are
  arguments, in the same order. With no filter present the base statement comes back
  unchanged with an empty argument list.
\<close>

theorem build_search_query_order:
  "build_search_query base f =
     (if filter_clauses f = [] then base
      else base @ lit '' WHERE '' @ join (lit '' AND '') (map fst (filter_clauses f)),
      concat (map snd (filter_clauses f)))
   \<and> list_all (\<lambda>(cond, args). placeholders cond = length args) (filter_clauses f)
   \<and> (\<exists>suffix. fst (build_search_query base f) = base @ suffix
         \<and> placeholders suffix = length (snd (build_search_query base f)))
   \<and> (no_filters f \<longrightarrow> build_search_query base f = (base, []))"
proof -
  have a: "list_all (\<lambda>(cond, args). placeholders cond = length args) (filter_clauses f)"
    using filter_clauses_placeholders [of f] by (auto simp: list_all_iff)
  have b: "\<exists>suffix. fst (build_search_query base f) = base @ suffix
         \<and> placeholders suffix = length (snd (build_search_query base f))"
  proof (cases "filter_clauses f = []")
    case True
    then show ?thesis by (simp add: build_search_query_clauses)
  next
    case False
    then show ?thesis
      using where_placeholders [of f] by (simp add: build_search_query_clauses)
  qed
  have c: "no_filters f \<longrightarrow> build_search_query base f = (base, [])"
    by (simp add: build_search_query_clauses no_filters_def filter_clauses_def)
  from a b c show ?thesis by (simp add: build_search_query_clauses)
qed

theorem build_search_query_order_witness:
  "no_filters unfiltered
   \<and> build_search_query (lit ''SELECT * FROM products'') unfiltered
       = (lit ''SELECT * FROM products'', [])
   \<and> build_search_query (lit ''SELECT * FROM products'')
         (unfiltered\<lparr>filter_category := Some (lit ''Tools''), low_stock := Some True\<rparr>)
       = (lit ''SELECT * FROM products WHERE category = %s AND quantity < 10'',
          [PStr (lit ''Tools'')])"
proof -
  let ?base = "lit ''SELECT * FROM products''"
  let ?tools = "unfiltered\<lparr>filter_category := Some (lit ''Tools''), low_stock := Some True\<rparr>"
  have n: "no_filters unfiltered"
    by (simp add: no_filters_def unfiltered_def truthy_str_def truthy_bool_def)
  have c: "filter_clauses ?tools
      = [(lit ''category = %s'', [PStr (lit ''Tools'')]), (lit ''quantity < 10'', [])]"
    by (simp add: filter_clauses_def unfiltered_def truthy_str_def truthy_bool_def lit_def)
  from build_search_query_order [of ?base unfiltered] n
  have r1: "build_search_query ?base unfiltered = (?base, [])"
    by blast
  from build_search_query_order [of ?base ?tools]
  have "build_search_query ?base ?tools =
     (if filter_clauses ?tools = [] then ?base
      else ?base @ lit '' WHERE '' @ join (lit '' AND '') (map fst (filter_clauses ?tools)),
      concat (map snd (filter_clauses ?tools)))"
    by blast
  then have r2: "build_search_query ?base ?tools
       = (lit ''SELECT * FROM products WHERE category = %s AND quantity < 10'',
          [PStr (lit ''Tools'')])"
    by (simp add: c) (simp add: lit_def)
  from n r1 r2 show ?thesis by simp
qed

text \<open>
  C9. For every list-products request the statement is the fixed head, then the
  conditions of the filters that are present, then the ordering and the two pagination
  placeholders; the argument list is the filter arguments followed by the limit and the
  skip, in that order, one argument for each placeholder of the statement. With skip 10
  and limit 5 the argument list ends in 5, 10.
\<close>

theorem pagination_last:
  "get_products_statement skip limit c s l =
     (lit ''SELECT * FROM products WHERE 1=1''
        @ (if truthy_str c then lit '' AND category = %s'' else [])
        @ (if truthy_str s then lit '' AND (name LIKE %s OR description LIKE %s)'' else [])
        @ (if truthy_bool l then lit '' AND quantity < 10'' else [])
        @ lit '' ORDER BY created_at DESC LIMIT %s OFFSET %s'',
      (if truthy_str c then [PStr (the c)] else [])
        @ (if truthy_str s
           then [PStr (lit ''%'' @ the s @ lit ''%''), PStr (lit ''%'' @ the s @ lit ''%'')]
           else [])
        @ [PInt limit, PInt skip])
   \<and> placeholders (fst (get_products_statement skip limit c s l))
       = length (snd (get_products_statement skip limit c s l))
   \<and> (\<exists>front. snd (get_products_statement 10 5 c s l) = front @ [PInt 5, PInt 10])"
  by (simp add: get_products_statement_def Let_def) (simp add: lit_def)

text \<open>
  C10. A list-products request with the low-stock flag set to false builds the same
  statement and the same arguments as a request without the flag, whatever the other
  parameters are; the same holds for the query builder. The flag set to false therefore
  adds no condition on the quantity.
\<close>

theorem low_stock_false_is_absent:
  "get_products_statement skip limit c s (Some False) = get_products_statement skip limit c s None
   \<and> build_search_query base (f\<lparr>low_stock := Some False\<rparr>)
       = build_search_query base (f\<lparr>low_stock := None\<rparr>)"
  by (simp add: get_products_statement_def build_search_query_def truthy_bool_def)

section \<open>Transactions (database.py)\<close>

lemma execute_with_eq:
  "execute_with eng c query params =
     (case execute eng query (case params of None \<Rightarrow> [] | Some ps \<Rightarrow> ps) (session c) of
        Inl msg \<Rightarrow> Inl msg
      | Inr (cur, s) \<Rightarrow>
          Inr (cur, c\<lparr>session := s, server := (if autocommit c then s else server c)\<rparr>))"
  by (cases params) (auto simp: execute_with_def cursor_execute_def)

lemma run_queries_applied:
  "\<not> autocommit c \<Longrightarrow>
   (case all_statements_applied eng (session c) queries of
      Inl msg \<Rightarrow> \<exists>c'. run_queries eng c queries = Inl (msg, c') \<and> server c' = server c
                        \<and> \<not> autocommit c'
    | Inr d \<Rightarrow> run_queries eng c queries = Inr (c\<lparr>session := d\<rparr>))"
proof (induction queries arbitrary: c)
  case Nil
  then show ?case by simp
next
  case (Cons qp queries)
  obtain query params where qp: "qp = (query, params)" by (cases qp)
  show ?case
  proof (cases "execute eng query (case params of None \<Rightarrow> [] | Some ps \<Rightarrow> ps) (session c)")
    case (Inl msg)
    then show ?thesis using Cons.prems by (simp add: qp execute_with_eq)
  next
    case (Inr r)
    obtain cur s where r: "r = (cur, s)" by (cases r)
    let ?c = "c\<lparr>session := s, server := server c\<rparr>"
    have nc: "\<not> autocommit ?c" using Cons.prems by simp
    from Cons.IH [OF nc] show ?thesis
      using Inr Cons.prems by (auto simp: qp r execute_with_eq split: sum.splits)
  qed
qed

lemma execute_transaction_eq:
  "execute_transaction eng db queries =
     (case connect_error eng db of
        Some msg \<Rightarrow>
          (Inl (Exception (lit ''Transaction execution failed: '') (Error msg)),
           \<lparr>server = db, session = db, autocommit = True\<rparr>)
      | None \<Rightarrow>
          (case all_statements_applied eng db queries of
             Inl msg \<Rightarrow>
               (Inl (Exception (lit ''Transaction execution failed: '') (Error msg)),
                \<lparr>server = db, session = db, autocommit = False\<rparr>)
           | Inr d \<Rightarrow>
               (case commit_error eng d of
                  Some msg \<Rightarrow>
                    (Inl (Exception (lit ''Transaction execution failed: '') (Error msg)),
                     \<lparr>server = db, session = db, autocommit = False\<rparr>)
                | None \<Rightarrow> (Inr True, \<lparr>server = d, session = d, autocommit = False\<rparr>))))"
proof (cases "connect_error eng db")
  case (Some msg)
  then show ?thesis by (simp add: execute_transaction_def get_connection_def)
next
  case None
  let ?c0 = "(get_connection db)\<lparr>autocommit := False\<rparr>"
  have c0: "\<not> autocommit ?c0" "session ?c0 = db" "server ?c0 = db"
    by (simp_all add: get_connection_def)
  show ?thesis
  proof (cases "all_statements_applied eng db queries")
    case (Inl msg)
    with run_queries_applied [OF c0(1), of eng queries] c0
    obtain c' where "run_queries eng ?c0 queries = Inl (msg, c')" "server c' = db"
      "\<not> autocommit c'"
      by auto
    then show ?thesis
      using None Inl by (simp add: execute_transaction_def Let_def connection_rollback_def)
  next
    case (Inr d)
    with run_queries_applied [OF c0(1), of eng queries] c0
    have "run_queries eng ?c0 queries = Inr (?c0\<lparr>session := d\<rparr>)"
      by simp
    then have run: "run_queries eng \<lparr>server = db, session = db, autocommit = False\<rparr> queries
        = Inr \<lparr>server = db, session = d, autocommit = False\<rparr>"
      by (simp add: get_connection_def)
    show ?thesis
      using None Inr
      by (cases "commit_error eng d")
         (auto simp: execute_transaction_def Let_def run connection_rollback_def
            connection_commit_def get_connection_def)
  qed
qed

text \<open>
  C2. For every engine, every starting data and every list of (statement, arguments)
  pairs, the outcome of the transaction helper is fixed by what happens to the
  statements. When a connection is obtained, every statement of the sequence succeeds in
  order and the commit succeeds, the helper returns \<open>True\<close> and the committed data is the
  result of applying every statement. When a statement fails, the helper raises the
  wrapped error carrying the message of that first failing statement, and the committed
  data is the starting data, the session having been rolled back to it before the error
  leaves the method; the same holds, with the respective message, when the commit fails
  or no connection is obtained. Conversely, \<open>True\<close> is returned only when every statement
  and the commit succeeded, and an error only when one of these failures occurred. In
  every case the session holds no uncommitted work, so no partly applied sequence is
  committed.
\<close>

theorem execute_transaction_all_or_nothing:
  "execute_transaction eng db queries =
     (case connect_error eng db of
        Some msg \<Rightarrow>
          (Inl (Exception (lit ''Transaction execution failed: '') (Error msg)),
           \<lparr>server = db, session = db, autocommit = True\<rparr>)
      | None \<Rightarrow>
          (case all_statements_applied eng db queries of
             Inl msg \<Rightarrow>
               (Inl (Exception (lit ''Transaction execution failed: '') (Error msg)),
                \<lparr>server = db, session = db, autocommit = False\<rparr>)
           | Inr d \<Rightarrow>
               (case commit_error eng d of
                  Some msg \<Rightarrow>
                    (Inl (Exception (lit ''Transaction execution failed: '') (Error msg)),
                     \<lparr>server = db, session = db, autocommit = False\<rparr>)
                | None \<Rightarrow> (Inr True, \<lparr>server = d, session = d, autocommit = False\<rparr>))))
   \<and> (connect_error eng db = None \<and> all_statements_applied eng db queries = Inr d
        \<and> commit_error eng d = None
      \<longrightarrow> execute_transaction eng db queries
            = (Inr True, \<lparr>server = d, session = d, autocommit = False\<rparr>))
   \<and> (connect_error eng db = None \<and> all_statements_applied eng db queries = Inl msg
      \<longrightarrow> execute_transaction eng db queries
            = (Inl (Exception (lit ''Transaction execution failed: '') (Error msg)),
               \<lparr>server = db, session = db, autocommit = False\<rparr>))
   \<and> (execute_transaction eng db queries = (Inr b, c)
      \<longrightarrow> b \<and> connect_error eng db = None
          \<and> all_statements_applied eng db queries = Inr (server c)
          \<and> commit_error eng (server c) = None \<and> session c = server c)
   \<and> (execute_transaction eng db queries = (Inl e, c)
      \<longrightarrow> server c = db \<and> session c = db
          \<and> (\<exists>m. e = Exception (lit ''Transaction execution failed: '') (Error m)
                \<and> (connect_error eng db = Some m
                    \<or> connect_error eng db = None
                       \<and> all_statements_applied eng db queries = Inl m
                    \<or> connect_error eng db = None
                       \<and> (\<exists>d'. all_statements_applied eng db queries = Inr d'
                                \<and> commit_error eng d' = Some m))))
   \<and> (execute_transaction eng db queries = (r, c)
      \<longrightarrow> session c = server c
          \<and> ((r = Inr True \<and> all_statements_applied eng db queries = Inr (server c))
             \<or> ((\<exists>m. r = Inl (Exception (lit ''Transaction execution failed: '') (Error m)))
                 \<and> server c = db)))"
proof -
  note eq = execute_transaction_eq [of eng db queries]
  have success: "execute_transaction eng db queries
            = (Inr True, \<lparr>server = d, session = d, autocommit = False\<rparr>)"
    if "connect_error eng db = None" "all_statements_applied eng db queries = Inr d"
      "commit_error eng d = None"
    using eq that by simp
  have failure: "execute_transaction eng db queries
            = (Inl (Exception (lit ''Transaction execution failed: '') (Error msg)),
               \<lparr>server = db, session = db, autocommit = False\<rparr>)"
    if "connect_error eng db = None" "all_statements_applied eng db queries = Inl msg"
    using eq that by simp
  have only_success: "b \<and> connect_error eng db = None
          \<and> all_statements_applied eng db queries = Inr (server c)
          \<and> commit_error eng (server c) = None \<and> session c = server c"
    if "execute_transaction eng db queries = (Inr b, c)"
    using eq that by (auto split: option.splits sum.splits)
  have only_failure: "server c = db \<and> session c = db
          \<and> (\<exists>m. e = Exception (lit ''Transaction execution failed: '') (Error m)
                \<and> (connect_error eng db = Some m
                    \<or> connect_error eng db = None
                       \<and> all_statements_applied eng db queries = Inl m
                    \<or> connect_error eng db = None
                       \<and> (\<exists>d'. all_statements_applied eng db queries = Inr d'
                                \<and> commit_error eng d' = Some m)))"
    if "execute_transaction eng db queries = (Inl e, c)"
    using eq that by (auto split: option.splits sum.splits)
  have either: "session c = server c
          \<and> ((r = Inr True \<and> all_statements_applied eng db queries = Inr (server c))
             \<or> ((\<exists>m. r = Inl (Exception (lit ''Transaction execution failed: '') (Error m)))
                 \<and> server c = db))"
    if "execute_transaction eng db queries = (r, c)"
    using eq that by (auto split: option.splits sum.splits)
  from eq success failure only_success only_failure either show ?thesis by blast
qed

text \<open>
  An engine that counts the statements it has executed and refuses the statement
  \<open>fail\<close>: two good statements are committed together, and a sequence with the refused
  statement in the middle leaves the count where it was.
\<close>

theorem execute_transaction_all_or_nothing_witness:
  "(let eng = \<lparr>connect_error = (\<lambda>d. None),
               execute = (\<lambda>query params d.
                  if query = lit ''fail'' then Inl (lit ''refused'')
                  else Inr (\<lparr>fetchall = [], rowcount = 1, lastrowid = 0\<rparr>, Suc d)),
               commit_error = (\<lambda>d. None)\<rparr> :: (nat, unit) engine;
        good = [(lit ''first'', None), (lit ''second'', Some [PInt 1])];
        bad = [(lit ''first'', None), (lit ''fail'', Some [PInt 1]), (lit ''third'', None)]
    in all_statements_applied eng 0 good = Inr 2
       \<and> execute_transaction eng 0 good
           = (Inr True, \<lparr>server = 2, session = 2, autocommit = False\<rparr>)
       \<and> all_statements_applied eng 0 bad = Inl (lit ''refused'')
       \<and> execute_transaction eng 0 bad
           = (Inl (Exception (lit ''Transaction execution failed: '') (Error (lit ''refused''))),
              \<lparr>server = 0, session = 0, autocommit = False\<rparr>))"
proof -
  let ?eng = "\<lparr>connect_error = (\<lambda>d. None),
               execute = (\<lambda>query params d.
                  if query = lit ''fail'' then Inl (lit ''refused'')
                  else Inr (\<lparr>fetchall = [], rowcount = 1, lastrowid = 0\<rparr>, Suc d)),
               commit_error = (\<lambda>d. None)\<rparr> :: (nat, unit) engine"
  let ?good = "[(lit ''first'', None), (lit ''second'', Some [PInt 1])]"
  let ?bad = "[(lit ''first'', None), (lit ''fail'', Some [PInt 1]), (lit ''third'', None)]"
  have g: "all_statements_applied ?eng 0 ?good = Inr 2"
    by (simp add: lit_def)
  have b: "all_statements_applied ?eng 0 ?bad = Inl (lit ''refused'')"
    by (simp add: lit_def)
  have n: "connect_error ?eng 0 = None" "commit_error ?eng 2 = None"
    by simp_all
  from execute_transaction_all_or_nothing [of ?eng 0 ?good 2] g n
  have r1: "execute_transaction ?eng 0 ?good
           = (Inr True, \<lparr>server = 2, session = 2, autocommit = False\<rparr>)"
    by blast
  from execute_transaction_all_or_nothing [of ?eng 0 ?bad _ "lit ''refused''"] b n
  have r2: "execute_transaction ?eng 0 ?bad
           = (Inl (Exception (lit ''Transaction execution failed: '') (Error (lit ''refused''))),
              \<lparr>server = 0, session = 0, autocommit = False\<rparr>)"
    by blast
  from g b r1 r2 show ?thesis by (simp add: Let_def)
qed

text \<open>A sequence whose statements all succeed is committed as a whole.\<close>

lemma execute_transaction_commits_example:
  "execute_transaction
     \<lparr>connect_error = (\<lambda>d. None),
      execute = (\<lambda>query params d.
         if query = lit ''fail'' then Inl (lit ''refused'')
         else Inr (\<lparr>fetchall = [], rowcount = 1, lastrowid = 0\<rparr>, Suc d)),
      commit_error = (\<lambda>d. None)\<rparr>
     (0::nat) [(lit ''first'', None), (lit ''second'', Some [PInt 1])]
   = (Inr True, \<lparr>server = 2, session = 2, autocommit = False\<rparr>)"
  by (simp add: execute_transaction_def get_connection_def execute_with_def cursor_execute_def
      connection_commit_def lit_def)

section \<open>Reports (pdf_generator.py)\<close>








lemma full_subtitle:
  "generate_full_product_list w products = Inr d \<Longrightarrow>
   story d ! 1 = Paragraph (lit ''Generated on '' @ strftime_report (wall_clock w)
                   @ lit ''<br/>Total Products: '' @ str_int (int (length products)))
                   ''CustomSubtitle''"
  by (auto simp: generate_full_product_list_def Let_def split: sum.splits)

lemma low_subtitle:
  "generate_low_stock_report w products = Inr d \<Longrightarrow>
   story d ! 1 = Paragraph (lit ''Generated on '' @ strftime_report (wall_clock w)
                   @ lit ''<br/>Low Stock Items: ''
                   @ str_int (int (length (filter (\<lambda>p. quantity p < 10) products))))
                   ''CustomSubtitle''"
  by (auto simp: generate_low_stock_report_def Let_def split: sum.splits if_splits)

text \<open>
  C1, as the code has it. The generator takes the list of products only and reads the
  wall clock itself; there is no timestamp parameter. The bytes a method returns are the
  PDF library's build of the document the method assembles, and the clock enters that
  document through its rendering to the minute (\<open>'%B %d, %Y at %I:%M %p'\<close>) and through
  nothing else. So two runs on the same products whose clock readings have the same
  rendering hand the same document to the library, and return the same bytes whenever
  the library, for its part, builds under the same conditions (the same readings of its
  own); two runs whose clock readings render differently never hand the same document
  to the library.
\<close>

theorem reports_depend_on_clock_rendering:
  "(strftime_report (wall_clock w1) = strftime_report (wall_clock w2) \<longrightarrow>
      generate_full_product_list w1 products = generate_full_product_list w2 products
      \<and> generate_low_stock_report w1 products = generate_low_stock_report w2 products
      \<and> generate_full_product_list_bytes build library_reads w1 products
          = generate_full_product_list_bytes build library_reads w2 products
      \<and> generate_low_stock_report_bytes build library_reads w1 products
          = generate_low_stock_report_bytes build library_reads w2 products)
   \<and> (strftime_report (wall_clock w1) \<noteq> strftime_report (wall_clock w2) \<longrightarrow>
        generate_full_product_list w1 products = Inr d \<longrightarrow>
        generate_full_product_list w2 products \<noteq> Inr d)
   \<and> (strftime_report (wall_clock w1) \<noteq> strftime_report (wall_clock w2) \<longrightarrow>
        generate_low_stock_report w1 products = Inr d \<longrightarrow>
        generate_low_stock_report w2 products \<noteq> Inr d)"
proof -
  have a: "generate_full_product_list w1 products = generate_full_product_list w2 products
      \<and> generate_low_stock_report w1 products = generate_low_stock_report w2 products"
    if "strftime_report (wall_clock w1) = strftime_report (wall_clock w2)"
    by (simp add: generate_full_product_list_def generate_low_stock_report_def that)
  have a': "generate_full_product_list_bytes build library_reads w1 products
          = generate_full_product_list_bytes build library_reads w2 products
      \<and> generate_low_stock_report_bytes build library_reads w1 products
          = generate_low_stock_report_bytes build library_reads w2 products"
    if "strftime_report (wall_clock w1) = strftime_report (wall_clock w2)"
    using a [OF that]
    by (simp add: generate_full_product_list_bytes_def generate_low_stock_report_bytes_def)
  have b: "strftime_report (wall_clock w1) = strftime_report (wall_clock w2)"
    if "generate_full_product_list w1 products = Inr d"
      "generate_full_product_list w2 products = Inr d"
    using full_subtitle [OF that(1)] full_subtitle [OF that(2)] by simp
  have c: "strftime_report (wall_clock w1) = strftime_report (wall_clock w2)"
    if "generate_low_stock_report w1 products = Inr d"
      "generate_low_stock_report w2 products = Inr d"
    using low_subtitle [OF that(1)] low_subtitle [OF that(2)] by simp
  from a a' b c show ?thesis by blast
qed

text \<open>
  Two clock readings within the same minute, and a stand-in for the library that puts
  what it reads itself into the first byte and the length of the story into the second.
\<close>

theorem reports_depend_on_clock_rendering_witness:
  "strftime_report (wall_clock example_world)
     = strftime_report (wall_clock (example_world\<lparr>wall_clock := example_time\<lparr>second := 30\<rparr>\<rparr>))
   \<and> generate_full_product_list example_world [widget]
       = generate_full_product_list (example_world\<lparr>wall_clock := example_time\<lparr>second := 30\<rparr>\<rparr>) [widget]
   \<and> generate_low_stock_report example_world [widget]
       = generate_low_stock_report (example_world\<lparr>wall_clock := example_time\<lparr>second := 30\<rparr>\<rparr>) [widget]
   \<and> generate_full_product_list_bytes (\<lambda>stamp doc. Inr [stamp, length (story doc)]) 7
         example_world [widget]
       = generate_full_product_list_bytes (\<lambda>stamp doc. Inr [stamp, length (story doc)]) 7
           (example_world\<lparr>wall_clock := example_time\<lparr>second := 30\<rparr>\<rparr>) [widget]
   \<and> generate_low_stock_report_bytes (\<lambda>stamp doc. Inr [stamp, length (story doc)]) 7
         example_world [widget]
       = generate_low_stock_report_bytes (\<lambda>stamp doc. Inr [stamp, length (story doc)]) 7
           (example_world\<lparr>wall_clock := example_time\<lparr>second := 30\<rparr>\<rparr>) [widget]"
proof -
  have s: "strftime_report (wall_clock example_world)
     = strftime_report (wall_clock (example_world\<lparr>wall_clock := example_time\<lparr>second := 30\<rparr>\<rparr>))"
    by (simp add: strftime_report_def example_world_def)
  from reports_depend_on_clock_rendering
         [of example_world "example_world\<lparr>wall_clock := example_time\<lparr>second := 30\<rparr>\<rparr>" "[widget]"
            "\<lambda>stamp doc. Inr [stamp, length (story doc)]" 7] s
  show ?thesis
    by blast
qed

text \<open>
  The bytes are not fixed by the products and the generator's clock reading alone: with
  the same products and the same clock reading, a library that stamps what it reads
  itself into the file returns different bytes when those readings differ.
\<close>

lemma bytes_follow_the_library:
  "generate_full_product_list_bytes (\<lambda>stamp doc. Inr [stamp, length (story doc)]) (7::nat)
       example_world []
     \<noteq> generate_full_product_list_bytes (\<lambda>stamp doc. Inr [stamp, length (story doc)]) 8
         example_world []"
  by (simp add: generate_full_product_list_bytes_def generate_full_product_list_def Let_def)

text \<open>
  When the library's build tells documents apart, two runs whose clock readings render
  differently never return the same bytes.
\<close>

lemma bytes_differ_with_the_rendering:
  assumes "strftime_report (wall_clock w1) \<noteq> strftime_report (wall_clock w2)"
    and "\<And>d1 d2 b. build library_reads d1 = Inr b \<Longrightarrow> build library_reads d2 = Inr b \<Longrightarrow> d1 = d2"
    and "generate_full_product_list_bytes build library_reads w1 products = Inr bytes"
  shows "generate_full_product_list_bytes build library_reads w2 products \<noteq> Inr bytes"
proof
  assume same: "generate_full_product_list_bytes build library_reads w2 products = Inr bytes"
  from assms(3) obtain d1 where d1: "generate_full_product_list w1 products = Inr d1"
    "build library_reads d1 = Inr bytes"
    by (auto simp: generate_full_product_list_bytes_def split: sum.splits)
  from same obtain d2 where d2: "generate_full_product_list w2 products = Inr d2"
    "build library_reads d2 = Inr bytes"
    by (auto simp: generate_full_product_list_bytes_def split: sum.splits)
  from assms(2) [OF d1(2) d2(2)] have "d1 = d2" .
  with d1(1) d2(1) full_subtitle [of w1 products d1] full_subtitle [of w2 products d2]
  have "strftime_report (wall_clock w1) = strftime_report (wall_clock w2)"
    by simp
  with assms(1) show False by simp
qed

lemma strftime_example:
  "strftime_report example_time = lit ''January 05, 2024 at 12:07 AM''"
  "strftime_report (example_time\<lparr>minute := 8\<rparr>) = lit ''January 05, 2024 at 12:08 AM''"
  by (simp_all add: strftime_report_def example_time_def month_name_def pad2_def digits.simps lit_def)

text \<open>
  C1, as stated, fails: the generator has no timestamp parameter, and two runs on the
  same list of products at wall-clock readings a minute apart produce different
  documents, for the full listing and for the low-stock report.
\<close>

theorem reports_differ_with_the_clock:
  "generate_full_product_list example_world []
     \<noteq> generate_full_product_list (example_world\<lparr>wall_clock := example_time\<lparr>minute := 8\<rparr>\<rparr>) []
   \<and> generate_low_stock_report example_world []
     \<noteq> generate_low_stock_report (example_world\<lparr>wall_clock := example_time\<lparr>minute := 8\<rparr>\<rparr>) []"
  by (simp add: generate_full_product_list_def generate_low_stock_report_def Let_def
      example_world_def strftime_example)
     (simp add: lit_def)

end
